theory Spec2Isabelle
  imports Main "HOL-Library.Sublist" "HOL-Library.AList"
begin

section \<open>Document containers and access control on a Solid pod\<close>

text \<open>
  The module under verification drives a remote pod through the pod client
  \<^verbatim>\<open>@inrupt/solid-client\<close>. The module's own functions are embedded as HOL functions.
  Every request the module hands to the pod client is appended to a trace of events, and
  the answer of the pod (which the module cannot compute) is read from a \<open>podClient\<close>
  record: a family of answer functions that see the trace so far and the arguments of the
  request. A rejected promise is the left injection of a sum; \<open>await\<close> passes it on.
  Of the console output only that of the catch blocks is on the trace; the progress
  messages, which no result depends on, are left out.
\<close>

subsection \<open>JavaScript strings\<close>

text \<open>\<^verbatim>\<open>s.slice(-3)\<close>: the last three characters, the whole string when it is shorter.\<close>

definition slice_last3 :: "string \<Rightarrow> string" where
  "slice_last3 s = drop (length s - 3) s"

text \<open>\<^verbatim>\<open>s.includes('/')\<close>.\<close>

definition includes_slash :: "string \<Rightarrow> bool" where
  "includes_slash s = (CHR ''/'' \<in> set s)"

text \<open>
  \<^verbatim>\<open>s.split(sep)[0]\<close> for a non-empty separator: the text before the first occurrence of
  \<open>sep\<close>, the whole of \<open>s\<close> when \<open>sep\<close> does not occur.
\<close>

fun split_head :: "string \<Rightarrow> string \<Rightarrow> string" where
  "split_head sep [] = []"
| "split_head sep (c # cs) = (if prefix sep (c # cs) then [] else c # split_head sep cs)"

text \<open>A template literal prints an absent argument as \<^verbatim>\<open>undefined\<close>.\<close>

fun template :: "string option \<Rightarrow> string" where
  "template None = ''undefined''"
| "template (Some s) = s"

subsection \<open>Data\<close>

record session =
  webId :: string

record fileObject =
  ftype :: string
  fdate :: string
  fdescription :: string
  fname :: string

text \<open>A Thing: its subject URL and the string properties added to it.\<close>

record thing =
  url :: string
  strings :: "(string \<times> string) list"

type_synonym solidDataset = "thing list"

text \<open>
  The access object of the ACL sub-API. A property the module leaves out of the object
  literal is \<open>None\<close>.
\<close>

record access =
  acc_read :: "bool option"
  acc_append :: "bool option"
  acc_write :: "bool option"
  acc_control :: "bool option"

text \<open>
  An ACL resource: for each agent (WebID) the access object that applies to the resource
  itself, and the one its children inherit by default.
\<close>

record aclDataset =
  resourceAccess :: "(string \<times> access) list"
  defaultAccess :: "(string \<times> access) list"

record datasetWithAcl =
  dataset :: solidDataset
  internal_acl :: "aclDataset option"

text \<open>
  What a promise is rejected with: a \<^verbatim>\<open>TypeError\<close> raised inside the client, the client's
  fetch error with the HTTP status of the pod's response, a failed request, or an
  \<^verbatim>\<open>Error\<close> the module constructs itself.
\<close>

datatype error = TypeError | FetchError nat | NetworkError | Error string

datatype jsval = JNull | JUndefined | JStr string | JThing thing | JDataset solidDataset

text \<open>
  What the module does to the outside: the requests to the pod client, with the arguments
  in the positions the module passes them, and the console output of its catch blocks.
\<close>

datatype event =
    CreateContainerAt jsval
  | SaveFileInContainer jsval string string
  | GetSolidDataset jsval
  | SaveSolidDatasetAt jsval jsval jsval
  | SaveSolidDatasetInContainer jsval solidDataset
  | GetSolidDatasetWithAcl jsval
  | SaveAclFor solidDataset aclDataset
  | DeleteFile jsval
  | DeleteContainer jsval
  | ConsoleLogError error
  | ConsoleLog string

type_synonym trace = "event list"

text \<open>
  The pod's answers: \<open>Inl\<close> is a rejected promise and carries the reason the pod gives
  (not found, unauthorized, no network, ...).
\<close>

record podClient =
  createContainerAt_res :: "trace \<Rightarrow> jsval \<Rightarrow> error + unit"
  saveFileInContainer_res :: "trace \<Rightarrow> jsval \<Rightarrow> string \<Rightarrow> string \<Rightarrow> error + unit"
  getSolidDataset_res :: "trace \<Rightarrow> jsval \<Rightarrow> error + solidDataset"
  saveSolidDatasetAt_res :: "trace \<Rightarrow> jsval \<Rightarrow> jsval \<Rightarrow> jsval \<Rightarrow> error + unit"
  saveSolidDatasetInContainer_res :: "trace \<Rightarrow> jsval \<Rightarrow> solidDataset \<Rightarrow> error + unit"
  getSolidDatasetWithAcl_res :: "trace \<Rightarrow> jsval \<Rightarrow> error + datasetWithAcl"
  saveAclFor_res :: "trace \<Rightarrow> solidDataset \<Rightarrow> aclDataset \<Rightarrow> error + unit"
  deleteContainer_res :: "trace \<Rightarrow> jsval \<Rightarrow> error + unit"
  generateName :: "trace \<Rightarrow> string"

type_synonym 'a promise = "(error + 'a) \<times> trace"

definition await :: "'a promise \<Rightarrow> ('a \<Rightarrow> trace \<Rightarrow> 'b promise) \<Rightarrow> 'b promise" where
  "await p k = (case p of (Inl e, tr) \<Rightarrow> (Inl e, tr) | (Inr v, tr) \<Rightarrow> k v tr)"

fun toJs :: "string option \<Rightarrow> jsval" where
  "toJs None = JNull"
| "toJs (Some s) = JStr s"

subsection \<open>Resource locator\<close>

definition fetchUrl :: "session \<Rightarrow> string \<Rightarrow> string \<Rightarrow> string option \<Rightarrow> string option" where
  "fetchUrl session fileType fetchType otherPodUrl =
    (let POD_URL = (if fetchType = ''self-fetch''
                    then split_head ''profile'' (webId session)
                    else ''https://'' @ template otherPodUrl @ ''/'')
     in if fileType = ''Bank Statement'' then Some (POD_URL @ ''Bank%20Statement/'')
        else if fileType = ''Passport'' then Some (POD_URL @ ''Passport/'')
        else if fileType = ''Drivers License'' then Some (POD_URL @ ''Drivers%20License/'')
        else None)"

text \<open>
  The locator as the specification words it: the pod root, then the URL-encoded name of
  a supported document type, then a slash. In self mode the pod root is the WebID with
  its \<^verbatim>\<open>profile\<close> path segment, and all that follows it, stripped; a path segment is
  the text between two slashes (or an end of the URL).
\<close>

definition supportedTypes :: "string list" where
  "supportedTypes = [''Bank Statement'', ''Passport'', ''Drivers License'']"

definition urlEncode :: "string \<Rightarrow> string" where
  "urlEncode s = concat (map (\<lambda>c. if c = CHR '' '' then ''%20'' else [c]) s)"

definition startsWithSegment :: "string \<Rightarrow> string \<Rightarrow> bool" where
  "startsWithSegment seg s =
     (prefix seg s \<and> (drop (length seg) s = [] \<or> hd (drop (length seg) s) = CHR ''/''))"

text \<open>\<open>atStart\<close>: the text read so far is empty or ends with a slash.\<close>

fun stripFromSegment :: "string \<Rightarrow> bool \<Rightarrow> string \<Rightarrow> string" where
  "stripFromSegment seg atStart [] = []"
| "stripFromSegment seg atStart (c # cs) =
     (if atStart \<and> startsWithSegment seg (c # cs) then []
      else c # stripFromSegment seg (c = CHR ''/'') cs)"

definition specPodRoot :: "session \<Rightarrow> string \<Rightarrow> string \<Rightarrow> string" where
  "specPodRoot session fetchType otherPodUrl =
    (if fetchType = ''self-fetch'' then stripFromSegment ''profile'' True (webId session)
     else ''https://'' @ otherPodUrl @ ''/'')"

definition specLocator :: "session \<Rightarrow> string \<Rightarrow> string \<Rightarrow> string \<Rightarrow> string option" where
  "specLocator session fileType fetchType otherPodUrl =
    (if fileType \<in> set supportedTypes
     then Some (specPodRoot session fetchType otherPodUrl @ urlEncode fileType @ ''/'')
     else None)"

text \<open>
  Where a text first occurs in a string, and the WebIDs on which the text \<^verbatim>\<open>profile\<close>
  occurs first as a path segment of its own (or not at all).
\<close>

definition firstIndexOf :: "string \<Rightarrow> string \<Rightarrow> nat option" where
  "firstIndexOf sep s = find (\<lambda>i. prefix sep (drop i s)) [0..<Suc (length s)]"

definition truncateAt :: "string \<Rightarrow> string \<Rightarrow> string" where
  "truncateAt sep s = (case firstIndexOf sep s of None \<Rightarrow> s | Some i \<Rightarrow> take i s)"

definition segmentFirst :: "string \<Rightarrow> bool \<Rightarrow> string \<Rightarrow> bool" where
  "segmentFirst seg atStart s =
     (case firstIndexOf seg s of
        None \<Rightarrow> True
      | Some i \<Rightarrow> (if i = 0 then atStart else s ! (i - 1) = CHR ''/'') \<and>
                  startsWithSegment seg (drop i s))"

subsection \<open>The pod client\<close>

text \<open>
  The client turns its URL argument into a string before it sends anything; on
  \<^verbatim>\<open>null\<close> and \<^verbatim>\<open>undefined\<close> that step raises, so the promise is rejected whatever the
  pod would answer. \<^verbatim>\<open>saveSolidDatasetAt\<close> also serialises its \<open>solidDataset\<close> argument
  before it sends anything, and raises on a value that is not a dataset. Every other
  answer is the pod's.
\<close>

definition nullish :: "jsval \<Rightarrow> bool" where
  "nullish v = (v = JNull \<or> v = JUndefined)"

definition createContainerAt :: "podClient \<Rightarrow> jsval \<Rightarrow> trace \<Rightarrow> unit promise" where
  "createContainerAt client u tr =
    (if nullish u then Inl TypeError else createContainerAt_res client tr u,
     tr @ [CreateContainerAt u])"

definition saveFileInContainer ::
    "podClient \<Rightarrow> jsval \<Rightarrow> string \<Rightarrow> string \<Rightarrow> trace \<Rightarrow> unit promise" where
  "saveFileInContainer client u slug contentType tr =
    (if nullish u then Inl TypeError else saveFileInContainer_res client tr u slug contentType,
     tr @ [SaveFileInContainer u slug contentType])"

definition getSolidDataset :: "podClient \<Rightarrow> jsval \<Rightarrow> trace \<Rightarrow> solidDataset promise" where
  "getSolidDataset client u tr =
    (if nullish u then Inl TypeError else getSolidDataset_res client tr u,
     tr @ [GetSolidDataset u])"

definition saveSolidDatasetAt ::
    "podClient \<Rightarrow> jsval \<Rightarrow> jsval \<Rightarrow> jsval \<Rightarrow> trace \<Rightarrow> unit promise" where
  "saveSolidDatasetAt client u solidDataset options tr =
    (if nullish u then Inl TypeError
     else (case solidDataset of
             JDataset d \<Rightarrow> saveSolidDatasetAt_res client tr u solidDataset options
           | _ \<Rightarrow> Inl TypeError),
     tr @ [SaveSolidDatasetAt u solidDataset options])"

definition saveSolidDatasetInContainer ::
    "podClient \<Rightarrow> jsval \<Rightarrow> solidDataset \<Rightarrow> trace \<Rightarrow> unit promise" where
  "saveSolidDatasetInContainer client u solidDataset tr =
    (if nullish u then Inl TypeError
     else saveSolidDatasetInContainer_res client tr u solidDataset,
     tr @ [SaveSolidDatasetInContainer u solidDataset])"

definition getSolidDatasetWithAcl ::
    "podClient \<Rightarrow> jsval \<Rightarrow> trace \<Rightarrow> datasetWithAcl promise" where
  "getSolidDatasetWithAcl client u tr =
    (if nullish u then Inl TypeError else getSolidDatasetWithAcl_res client tr u,
     tr @ [GetSolidDatasetWithAcl u])"

definition saveAclFor ::
    "podClient \<Rightarrow> solidDataset \<Rightarrow> aclDataset \<Rightarrow> trace \<Rightarrow> unit promise" where
  "saveAclFor client resource acl tr =
    (saveAclFor_res client tr resource acl, tr @ [SaveAclFor resource acl])"

definition deleteContainer :: "podClient \<Rightarrow> jsval \<Rightarrow> trace \<Rightarrow> unit promise" where
  "deleteContainer client u tr =
    (if nullish u then Inl TypeError else deleteContainer_res client tr u,
     tr @ [DeleteContainer u])"

text \<open>
  \<^verbatim>\<open>deleteFile\<close> called and its promise dropped: the request is on the trace, its outcome
  is seen by nobody.
\<close>

definition deleteFile_unawaited :: "jsval \<Rightarrow> trace \<Rightarrow> trace" where
  "deleteFile_unawaited u tr = tr @ [DeleteFile u]"

text \<open>The functions of the client that compute on values it already holds.\<close>

definition getThingAll :: "solidDataset \<Rightarrow> thing list" where
  "getThingAll ds = ds"

definition createSolidDataset :: solidDataset where
  "createSolidDataset = []"

text \<open>\<^verbatim>\<open>setThing\<close>: a Thing with the same subject URL is replaced, any other is added.\<close>

fun setThing :: "solidDataset \<Rightarrow> thing \<Rightarrow> solidDataset" where
  "setThing [] t = [t]"
| "setThing (x # xs) t = (if url x = url t then t # xs else x # setThing xs t)"

text \<open>\<^verbatim>\<open>createThing({ name })\<close>: without a name the client generates one.\<close>

definition createThing :: "podClient \<Rightarrow> trace \<Rightarrow> string option \<Rightarrow> thing" where
  "createThing client tr name =
    \<lparr>url = ''https://inrupt.com/.well-known/sdk-local-node/'' @
            (case name of None \<Rightarrow> generateName client tr | Some n \<Rightarrow> n),
     strings = []\<rparr>"

definition addStringNoLocale :: "string \<Rightarrow> string \<Rightarrow> thing \<Rightarrow> thing" where
  "addStringNoLocale property v t = t\<lparr>strings := strings t @ [(property, v)]\<rparr>"

definition createAcl :: "solidDataset \<Rightarrow> aclDataset" where
  "createAcl targetResource = \<lparr>resourceAccess = [], defaultAccess = []\<rparr>"

definition setAgentResourceAccess :: "aclDataset \<Rightarrow> string \<Rightarrow> access \<Rightarrow> aclDataset" where
  "setAgentResourceAccess acl agent a =
     acl\<lparr>resourceAccess := AList.update agent a (resourceAccess acl)\<rparr>"

definition setAgentDefaultAccess :: "aclDataset \<Rightarrow> string \<Rightarrow> access \<Rightarrow> aclDataset" where
  "setAgentDefaultAccess acl agent a =
     acl\<lparr>defaultAccess := AList.update agent a (defaultAccess acl)\<rparr>"

definition getResourceAcl :: "datasetWithAcl \<Rightarrow> aclDataset option" where
  "getResourceAcl r = internal_acl r"

definition getAgentResourceAccess :: "aclDataset \<Rightarrow> string \<Rightarrow> access option" where
  "getAgentResourceAccess acl agent = map_of (resourceAccess acl) agent"

definition getAgentDefaultAccess :: "aclDataset \<Rightarrow> string \<Rightarrow> access option" where
  "getAgentDefaultAccess acl agent = map_of (defaultAccess acl) agent"

subsection \<open>The module\<close>

text \<open>
  \<open>placeFileInContainer\<close> has no \<^verbatim>\<open>return\<close>: its promise resolves to \<^verbatim>\<open>undefined\<close>
  (\<open>None\<close>) on both paths, and the catch block's only effect is the console output.
\<close>

definition placeFileInContainer ::
    "podClient \<Rightarrow> session \<Rightarrow> fileObject \<Rightarrow> jsval \<Rightarrow> trace \<Rightarrow> string option promise" where
  "placeFileInContainer client session fileObject containerUrl tr =
    (case saveFileInContainer client containerUrl (fname fileObject) (ftype fileObject) tr of
       (Inr _, tr') \<Rightarrow> (Inr None, tr')
     | (Inl error, tr') \<Rightarrow> (Inr None, tr' @ [ConsoleLogError error]))"

text \<open>
  \<^verbatim>\<open>getThingAll\<close> returns an array, which is never falsy, so the \<^verbatim>\<open>!items\<close> exits of
  \<open>hasTTLFiles\<close> and \<open>hasFiles\<close> are never taken; \<^verbatim>\<open>find\<close> gives the first match.
\<close>

definition hasTTLFiles :: "solidDataset \<Rightarrow> thing option" where
  "hasTTLFiles containerUrl =
     find (\<lambda>item. slice_last3 (url item) = ''ttl'') (getThingAll containerUrl)"

text \<open>
  \<open>directory\<close> starts as the empty string (\<open>None\<close>) and is overwritten by each item
  that the test sends to the else branch.
\<close>

fun hasFiles_forEach :: "thing list \<Rightarrow> thing option \<times> thing list \<Rightarrow> thing option \<times> thing list" where
  "hasFiles_forEach [] acc = acc"
| "hasFiles_forEach (file # items) (directory, files) =
     hasFiles_forEach items
       (if \<not> includes_slash (slice_last3 (url file)) then (directory, files @ [file])
        else (Some file, files))"

definition hasFiles :: "solidDataset \<Rightarrow> thing option \<times> thing list" where
  "hasFiles containerUrl = hasFiles_forEach (getThingAll containerUrl) (None, [])"

definition setupAcl :: "aclDataset \<Rightarrow> string \<Rightarrow> access \<Rightarrow> aclDataset" where
  "setupAcl resourceWithAcl agent accessObject =
    (let acl = setAgentResourceAccess resourceWithAcl agent accessObject
     in setAgentDefaultAccess acl agent accessObject)"

definition fullAccess :: access where
  "fullAccess = \<lparr>acc_read = Some True, acc_append = Some True,
                  acc_write = Some True, acc_control = Some True\<rparr>"

definition createDocAclForUser ::
    "podClient \<Rightarrow> session \<Rightarrow> string option \<Rightarrow> trace \<Rightarrow> unit promise" where
  "createDocAclForUser client session documentUrl tr =
    await (getSolidDataset client (toJs documentUrl) tr) (\<lambda>podResourceWithoutAcl tr1.
      let resourceAcl = createAcl podResourceWithoutAcl;
          accessObject = fullAccess;
          newAcl = setupAcl resourceAcl (webId session) accessObject
      in saveAclFor client podResourceWithoutAcl newAcl tr1)"

text \<open>
  \<^verbatim>\<open>setAgentResourceAccess\<close> reads the ACL it is given, so on the \<^verbatim>\<open>null\<close> that
  \<^verbatim>\<open>getResourceAcl\<close> returns for a resource without an ACL it raises.
\<close>

definition readOnly :: "bool \<Rightarrow> access" where
  "readOnly b = \<lparr>acc_read = Some b, acc_append = None, acc_write = None, acc_control = None\<rparr>"

definition granteeWebId :: "string \<Rightarrow> string" where
  "granteeWebId otherPodUrl = ''https://'' @ otherPodUrl @ ''/profile/card#me''"

definition setDocAclPermission ::
    "podClient \<Rightarrow> session \<Rightarrow> string \<Rightarrow> string \<Rightarrow> string \<Rightarrow> trace \<Rightarrow> unit promise" where
  "setDocAclPermission client session fileType accessType otherPodUrl tr =
    (let documentUrl = fetchUrl session fileType ''self-fetch'' None
     in await (getSolidDatasetWithAcl client (toJs documentUrl) tr) (\<lambda>podResouceWithAcl tr1.
          let resourceAcl = getResourceAcl podResouceWithAcl;
              agent = granteeWebId otherPodUrl;
              accessObject = (if accessType = ''Give'' then readOnly True else readOnly False)
          in case resourceAcl of
               None \<Rightarrow> (Inl TypeError, tr1)
             | Some acl \<Rightarrow>
                 saveAclFor client (dataset podResouceWithAcl)
                   (setupAcl acl agent accessObject) tr1))"

definition buildThing :: "thing \<Rightarrow> fileObject \<Rightarrow> thing" where
  "buildThing t fileObject =
    addStringNoLocale ''http://schema.org/description'' (fdescription fileObject)
      (addStringNoLocale ''http://schema.org/endDate'' (fdate fileObject)
        (addStringNoLocale ''http://schema.org/identifier'' (ftype fileObject)
          (addStringNoLocale ''http://schema.org/name'' (fname fileObject) t)))"

text \<open>
  In the branch that finds a dataset the module passes the item itself (an object, not
  its URL) to \<^verbatim>\<open>getSolidDataset\<close>, and calls \<^verbatim>\<open>saveSolidDatasetAt\<close> with four arguments:
  the item, the container URL, the merged dataset and the options. The client's parameters
  are (url, solidDataset, options), so the fourth argument is dropped.
\<close>

definition uploadDocument :: "podClient \<Rightarrow> session \<Rightarrow> fileObject \<Rightarrow> trace \<Rightarrow> unit promise" where
  "uploadDocument client session fileObject tr =
    (let documentUrl = fetchUrl session (ftype fileObject) ''self-fetch'' None
     in await (createContainerAt client (toJs documentUrl) tr) (\<lambda>_ tr1.
        await (placeFileInContainer client session fileObject (toJs documentUrl) tr1)
          (\<lambda>storedFile tr2.
        await (getSolidDataset client (toJs documentUrl) tr2) (\<lambda>getDatasetFromUrl tr3.
          let ttlFile = hasTTLFiles getDatasetFromUrl;
              toBeUpdated = buildThing (createThing client tr3 storedFile) fileObject
          in case ttlFile of
               Some item \<Rightarrow>
                 await (getSolidDataset client (JThing item) tr3) (\<lambda>myDataset tr4.
                   saveSolidDatasetAt client (JThing item) (toJs documentUrl)
                     (JDataset (setThing myDataset toBeUpdated)) tr4)
             | None \<Rightarrow>
                 await (saveSolidDatasetInContainer client (toJs documentUrl)
                          (setThing createSolidDataset toBeUpdated) tr3) (\<lambda>_ tr4.
                   createDocAclForUser client session documentUrl tr4)))))"

definition fetchDocuments ::
    "podClient \<Rightarrow> session \<Rightarrow> string \<Rightarrow> string \<Rightarrow> string \<Rightarrow> trace \<Rightarrow> string option promise" where
  "fetchDocuments client session fileType fetchType otherPodUrl tr =
    (let documentUrl = fetchUrl session fileType fetchType (Some otherPodUrl)
     in case getSolidDataset client (toJs documentUrl) tr of
          (Inr _, tr1) \<Rightarrow> (Inr documentUrl, tr1)
        | (Inl error, tr1) \<Rightarrow>
            (Inl (Error ''No data found or unauthorized''),
             tr1 @ [ConsoleLog ''No data found or unauthorized'']))"

text \<open>
  \<^verbatim>\<open>files.filter(async ...)\<close> runs the callback on each file in order; each run tests the
  URL again and calls \<^verbatim>\<open>deleteFile\<close>. Nothing awaits the promises of the callbacks.
\<close>

fun deleteDocumentFile_each :: "thing list \<Rightarrow> trace \<Rightarrow> trace" where
  "deleteDocumentFile_each [] tr = tr"
| "deleteDocumentFile_each (file # files) tr =
     deleteDocumentFile_each files
       (if \<not> includes_slash (slice_last3 (url file))
        then deleteFile_unawaited (JStr (url file)) tr else tr)"

text \<open>\<^verbatim>\<open>container.url\<close> of the empty string is \<^verbatim>\<open>undefined\<close>.\<close>

definition deleteDocumentFile ::
    "podClient \<Rightarrow> session \<Rightarrow> string \<Rightarrow> trace \<Rightarrow> jsval promise" where
  "deleteDocumentFile client session fileType tr =
    (let documentUrl = fetchUrl session fileType ''self-fetch'' None
     in await (getSolidDataset client (toJs documentUrl) tr) (\<lambda>fetched tr1.
          case hasFiles fetched of
            (container, files) \<Rightarrow>
              (Inr (case container of None \<Rightarrow> JUndefined | Some c \<Rightarrow> JStr (url c)),
               deleteDocumentFile_each files tr1)))"

definition deleteDocumentContainer ::
    "podClient \<Rightarrow> session \<Rightarrow> jsval \<Rightarrow> trace \<Rightarrow> unit promise" where
  "deleteDocumentContainer client session documentUrl tr = deleteContainer client documentUrl tr"


subsection \<open>Observations on traces\<close>

text \<open>The ACL saves of a trace, in order: the resource and the ACL handed to \<^verbatim>\<open>saveAclFor\<close>.\<close>

fun aclSaves :: "trace \<Rightarrow> (solidDataset \<times> aclDataset) list" where
  "aclSaves [] = []"
| "aclSaves (SaveAclFor r a # tr) = (r, a) # aclSaves tr"
| "aclSaves (_ # tr) = aclSaves tr"

text \<open>The URLs of the delete requests of a trace, in order.\<close>

fun deletedFiles :: "trace \<Rightarrow> jsval list" where
  "deletedFiles [] = []"
| "deletedFiles (DeleteFile u # tr) = u # deletedFiles tr"
| "deletedFiles (_ # tr) = deletedFiles tr"

subsection \<open>Example sessions and pods\<close>

definition alice :: session where
  "alice = \<lparr>webId = ''https://alice.example/profile/card#me''\<rparr>"

definition passportUrl :: string where
  "passportUrl = ''https://alice.example/Passport/''"

text \<open>
  A pod that accepts every write, answers every read of a dataset by \<open>reads\<close>, the
  placement of a file by \<open>placement\<close> and the read of a resource with its ACL by
  \<open>aclRead\<close>.
\<close>

definition examplePod ::
    "(jsval \<Rightarrow> error + solidDataset) \<Rightarrow> (error + unit) \<Rightarrow> (error + datasetWithAcl) \<Rightarrow> podClient" where
  "examplePod reads placement aclRead =
    \<lparr>createContainerAt_res = (\<lambda>tr u. Inr ()),
     saveFileInContainer_res = (\<lambda>tr u slug contentType. placement),
     getSolidDataset_res = (\<lambda>tr u. reads u),
     saveSolidDatasetAt_res = (\<lambda>tr u d options. Inr ()),
     saveSolidDatasetInContainer_res = (\<lambda>tr u d. Inr ()),
     getSolidDatasetWithAcl_res = (\<lambda>tr u. aclRead),
     saveAclFor_res = (\<lambda>tr r a. Inr ()),
     deleteContainer_res = (\<lambda>tr u. Inr ()),
     generateName = (\<lambda>tr. ''b7e1'')\<rparr>"

definition noAcl :: "error + datasetWithAcl" where
  "noAcl = Inl (FetchError 404)"

text \<open>A Passport container holding one uploaded file and its metadata dataset.\<close>

definition containerItem :: thing where
  "containerItem = \<lparr>url = ''https://alice.example/Passport/'', strings = []\<rparr>"

definition firstFileItem :: thing where
  "firstFileItem = \<lparr>url = ''https://alice.example/Passport/first.pdf'', strings = []\<rparr>"

definition metaItem :: thing where
  "metaItem = \<lparr>url = ''https://alice.example/Passport/3f2a.ttl'', strings = []\<rparr>"

definition passportListing :: solidDataset where
  "passportListing = [containerItem, firstFileItem, metaItem]"

definition firstFile :: fileObject where
  "firstFile = \<lparr>ftype = ''Passport'', fdate = ''2024-01-01'',
                 fdescription = ''passport scan'', fname = ''first.pdf''\<rparr>"

definition secondFile :: fileObject where
  "secondFile = \<lparr>ftype = ''Passport'', fdate = ''2029-06-30'',
                  fdescription = ''renewed passport'', fname = ''second.pdf''\<rparr>"

text \<open>The metadata Things the two uploads build, under the name the example pod generates.\<close>

definition firstThing :: thing where
  "firstThing =
    \<lparr>url = ''https://inrupt.com/.well-known/sdk-local-node/a0c4'',
     strings = [(''http://schema.org/name'', ''first.pdf''),
                (''http://schema.org/identifier'', ''Passport''),
                (''http://schema.org/endDate'', ''2024-01-01''),
                (''http://schema.org/description'', ''passport scan'')]\<rparr>"

definition secondThing :: thing where
  "secondThing =
    \<lparr>url = ''https://inrupt.com/.well-known/sdk-local-node/b7e1'',
     strings = [(''http://schema.org/name'', ''second.pdf''),
                (''http://schema.org/identifier'', ''Passport''),
                (''http://schema.org/endDate'', ''2029-06-30''),
                (''http://schema.org/description'', ''renewed passport'')]\<rparr>"

text \<open>
  The pod after a first upload: the container read lists the file and the dataset. A
  read through the dataset's item carries an object where the client expects a URL; the
  pod's answer to it is \<open>itemRead\<close>.
\<close>

definition podAfterFirstUpload :: "(error + unit) \<Rightarrow> (error + solidDataset) \<Rightarrow> podClient" where
  "podAfterFirstUpload placement itemRead =
     examplePod (\<lambda>u. case u of JStr s \<Rightarrow> Inr passportListing
                       | JThing item \<Rightarrow> itemRead
                       | _ \<Rightarrow> Inl (FetchError 404))
       placement noAcl"

text \<open>The pod before any upload: the container read lists the container alone.\<close>

definition freshPod :: "(error + unit) \<Rightarrow> podClient" where
  "freshPod placement = examplePod (\<lambda>u. Inr [containerItem]) placement noAcl"

text \<open>Two other agents, and the Passport container's ACL before any sharing with Bob.\<close>

definition bob :: string where
  "bob = ''https://bob.example/profile/card#me''"

definition carol :: string where
  "carol = ''https://carol.example/profile/card#me''"

definition passportAcl :: aclDataset where
  "passportAcl = \<lparr>resourceAccess = [(webId alice, fullAccess), (carol, readOnly True)],
                    defaultAccess = [(webId alice, fullAccess), (carol, readOnly True)]\<rparr>"

definition passportWithAcl :: datasetWithAcl where
  "passportWithAcl = \<lparr>dataset = passportListing, internal_acl = Some passportAcl\<rparr>"

definition sharingPod :: podClient where
  "sharingPod = examplePod (\<lambda>u. Inr passportListing) (Inr ()) (Inr passportWithAcl)"

definition sharedAcl :: "bool \<Rightarrow> aclDataset" where
  "sharedAcl b =
     \<lparr>resourceAccess = [(webId alice, fullAccess), (carol, readOnly True), (bob, readOnly b)],
      defaultAccess = [(webId alice, fullAccess), (carol, readOnly True), (bob, readOnly b)]\<rparr>"

text \<open>A file stored under a name of two characters.\<close>

definition shortNameItem :: thing where
  "shortNameItem = \<lparr>url = ''https://alice.example/Passport/id'', strings = []\<rparr>"

text \<open>A WebID whose host holds the text \<^verbatim>\<open>profile\<close>.\<close>

definition myprofile :: session where
  "myprofile = \<lparr>webId = ''https://myprofile.opencommons.net/profile/card#me''\<rparr>"

text \<open>
  A pod that keeps what it is given. The files and datasets that earlier requests of the
  trace put into a container are listed when the container is read: a file under its
  slug, the datasets under the names of \<open>names\<close>, in order.
\<close>

fun listedItems :: "trace \<Rightarrow> string list \<Rightarrow> thing list" where
  "listedItems [] names = []"
| "listedItems (SaveFileInContainer (JStr u) slug contentType # tr) names =
     \<lparr>url = u @ slug, strings = []\<rparr> # listedItems tr names"
| "listedItems (SaveSolidDatasetInContainer (JStr u) d # tr) (n # names) =
     \<lparr>url = u @ n, strings = []\<rparr> # listedItems tr names"
| "listedItems (_ # tr) names = listedItems tr names"

definition recordingPod :: "string list \<Rightarrow> podClient" where
  "recordingPod names =
    \<lparr>createContainerAt_res = (\<lambda>tr u. Inr ()),
     saveFileInContainer_res = (\<lambda>tr u slug contentType. Inr ()),
     getSolidDataset_res = (\<lambda>tr u. case u of
         JStr s \<Rightarrow> Inr (\<lparr>url = s, strings = []\<rparr> # listedItems tr names)
       | _ \<Rightarrow> Inl (FetchError 404)),
     saveSolidDatasetAt_res = (\<lambda>tr u d options. Inr ()),
     saveSolidDatasetInContainer_res = (\<lambda>tr u d. Inr ()),
     getSolidDatasetWithAcl_res = (\<lambda>tr u. Inl (FetchError 404)),
     saveAclFor_res = (\<lambda>tr r a. Inr ()),
     deleteContainer_res = (\<lambda>tr u. Inr ()),
     generateName = (\<lambda>tr. ''b7e1'')\<rparr>"

text \<open>A Turtle file uploaded as a document.\<close>

definition turtleFile :: fileObject where
  "turtleFile = \<lparr>ftype = ''Passport'', fdate = ''2024-01-01'',
                  fdescription = ''passport data'', fname = ''scan.ttl''\<rparr>"

section \<open>Properties\<close>

subsection \<open>Strings\<close>

lemma find_map_Suc:
  "find P (map Suc xs) = map_option Suc (find (\<lambda>i. P (Suc i)) xs)"
  by (induction xs) auto

lemma upt_Suc_shift: "[0..<Suc (Suc n)] = 0 # map Suc [0..<Suc n]"
  by (metis upt_conv_Cons zero_less_Suc map_Suc_upt)

lemma split_head_truncateAt:
  "sep \<noteq> [] \<Longrightarrow> split_head sep s = truncateAt sep s"
proof (induction s)
  case Nil
  then show ?case
    by (simp add: truncateAt_def firstIndexOf_def)
next
  case (Cons c cs)
  have shift: "firstIndexOf sep (c # cs) =
      (if prefix sep (c # cs) then Some 0 else map_option Suc (firstIndexOf sep cs))"
    unfolding firstIndexOf_def
    by (simp only: length_Cons upt_Suc_shift find.simps find_map_Suc drop_0 drop_Suc_Cons)
  show ?case
  proof (cases "prefix sep (c # cs)")
    case True
    then show ?thesis
      by (simp add: truncateAt_def shift)
  next
    case False
    with Cons show ?thesis
      by (simp add: truncateAt_def shift split: option.splits)
  qed
qed

subsection \<open>Resource locator\<close>

lemma firstIndexOf_Cons:
  "firstIndexOf sep (c # cs) =
      (if prefix sep (c # cs) then Some 0 else map_option Suc (firstIndexOf sep cs))"
  unfolding firstIndexOf_def
  by (simp only: length_Cons upt_Suc_shift find.simps find_map_Suc drop_0 drop_Suc_Cons)

text \<open>
  Cutting at the first occurrence of the text, as the code does, and stripping the path
  segment agree on every string in which the text occurs first as a segment.
\<close>

lemma split_head_stripFromSegment:
  "sep \<noteq> [] \<Longrightarrow> segmentFirst sep atStart s \<Longrightarrow>
   split_head sep s = stripFromSegment sep atStart s"
proof (induction s arbitrary: atStart)
  case Nil
  then show ?case by simp
next
  case (Cons c cs)
  show ?case
  proof (cases "prefix sep (c # cs)")
    case True
    with Cons.prems(2) show ?thesis
      by (simp add: segmentFirst_def firstIndexOf_Cons)
  next
    case False
    then have no_seg: "\<not> startsWithSegment sep (c # cs)"
      by (simp add: startsWithSegment_def)
    have "segmentFirst sep (c = CHR ''/'') cs"
      using Cons.prems(2) False
      by (auto simp: segmentFirst_def firstIndexOf_Cons nth_Cons' split: option.splits if_splits)
    with Cons.IH [OF Cons.prems(1)]
    have "split_head sep cs = stripFromSegment sep (c = CHR ''/'') cs"
      by blast
    with False no_seg show ?thesis by simp
  qed
qed

text \<open>
  On those WebIDs \<open>fetchUrl\<close> is the locator of the specification: the pod root by the
  \<^verbatim>\<open>profile\<close> segment in self mode and \<^verbatim>\<open>https://<otherPodUrl>/\<close> in any other mode,
  then the URL-encoded type and a slash for the three supported types, null for any
  other type. In self mode the pod argument is not looked at.
\<close>

lemma fetchUrl_locator_segment_first:
  assumes "fetchType = ''self-fetch'' \<longrightarrow> segmentFirst ''profile'' True (webId session)"
  shows "fetchUrl session fileType fetchType (Some otherPodUrl) =
           specLocator session fileType fetchType otherPodUrl"
  using assms
  by (simp add: fetchUrl_def specLocator_def specPodRoot_def supportedTypes_def urlEncode_def
      split_head_stripFromSegment Let_def)

lemma fetchUrl_self_ignores_pod:
  "fetchUrl session fileType ''self-fetch'' otherPodUrl =
   fetchUrl session fileType ''self-fetch'' None"
  by (simp add: fetchUrl_def)

lemma fetchUrl_locator_examples:
  "segmentFirst ''profile'' True (webId alice)"
  "fetchUrl alice ''Bank Statement'' ''self-fetch'' (Some []) =
     Some ''https://alice.example/Bank%20Statement/''"
  "fetchUrl alice ''Drivers License'' ''cross-fetch'' (Some ''bob.example'') =
     Some ''https://bob.example/Drivers%20License/''"
  "fetchUrl alice ''Birth Certificate'' ''self-fetch'' (Some []) = None"
  by (simp_all add: segmentFirst_def firstIndexOf_def alice_def startsWithSegment_def
      fetchUrl_def)

text \<open>
  Claim C9, at a WebID whose host holds the text \<^verbatim>\<open>profile\<close>. In self mode the pod root
  is to be the WebID stripped of its \<^verbatim>\<open>profile\<close> path segment, which gives the container
  \<^verbatim>\<open>https://myprofile.opencommons.net/Passport/\<close>; the cross mode of \<open>fetchUrl\<close> gives
  that very container for the same pod. The self mode cuts the WebID where the text first
  occurs, inside the host, and returns \<^verbatim>\<open>https://myPassport/\<close>.
\<close>

theorem fetchUrl_profile_in_host:
  "fetchUrl myprofile ''Passport'' ''self-fetch'' None = Some ''https://myPassport/'' \<and>
   specLocator myprofile ''Passport'' ''self-fetch'' [] =
     Some ''https://myprofile.opencommons.net/Passport/'' \<and>
   fetchUrl myprofile ''Passport'' ''cross-fetch'' (Some ''myprofile.opencommons.net'') =
     Some ''https://myprofile.opencommons.net/Passport/''"
  by (simp add: fetchUrl_def specLocator_def specPodRoot_def supportedTypes_def urlEncode_def
      myprofile_def startsWithSegment_def)

subsection \<open>Promises and the pod client\<close>

lemma await_Inl [simp]: "await (Inl e, tr) k = (Inl e, tr)"
  by (simp add: await_def)

lemma await_Inr [simp]: "await (Inr v, tr) k = k v tr"
  by (simp add: await_def)

lemma await_cases:
  "await (r, tr) k = (case r of Inl e \<Rightarrow> (Inl e, tr) | Inr v \<Rightarrow> k v tr)"
  by (cases r) simp_all

lemma nullish_simps [simp]:
  "nullish JNull" "nullish JUndefined" "\<not> nullish (JStr s)" "\<not> nullish (JThing t)"
  "\<not> nullish (JDataset d)"
  by (simp_all add: nullish_def)

lemmas client_defs = createContainerAt_def saveFileInContainer_def getSolidDataset_def
  saveSolidDatasetAt_def saveSolidDatasetInContainer_def getSolidDatasetWithAcl_def
  saveAclFor_def deleteContainer_def

lemma fetchUrl_unsupported:
  "fileType \<notin> set supportedTypes \<Longrightarrow> fetchUrl session fileType fetchType otherPodUrl = None"
  by (simp add: fetchUrl_def supportedTypes_def)

lemma fetchUrl_alice_passport:
  "fetchUrl alice ''Passport'' ''self-fetch'' otherPodUrl = Some passportUrl"
  by (simp add: fetchUrl_def alice_def passportUrl_def)

lemma examplePod_simps [simp]:
  "createContainerAt_res (examplePod reads placement aclRead) tr u = Inr ()"
  "saveFileInContainer_res (examplePod reads placement aclRead) tr u slug ct = placement"
  "getSolidDataset_res (examplePod reads placement aclRead) tr u = reads u"
  "saveSolidDatasetAt_res (examplePod reads placement aclRead) tr u v w = Inr ()"
  "saveSolidDatasetInContainer_res (examplePod reads placement aclRead) tr u d = Inr ()"
  "getSolidDatasetWithAcl_res (examplePod reads placement aclRead) tr u = aclRead"
  "saveAclFor_res (examplePod reads placement aclRead) tr r a = Inr ()"
  "deleteContainer_res (examplePod reads placement aclRead) tr u = Inr ()"
  "generateName (examplePod reads placement aclRead) tr = ''b7e1''"
  by (simp_all add: examplePod_def)

lemma fetchUrl_alice_files:
  "fetchUrl alice (ftype firstFile) ''self-fetch'' None = Some passportUrl"
  "fetchUrl alice (ftype secondFile) ''self-fetch'' None = Some passportUrl"
  by (simp_all add: firstFile_def secondFile_def fetchUrl_alice_passport)

lemma hasTTLFiles_examples:
  "hasTTLFiles [containerItem] = None"
  "hasTTLFiles passportListing = Some metaItem"
  by (simp_all add: hasTTLFiles_def getThingAll_def slice_last3_def passportListing_def
      containerItem_def firstFileItem_def metaItem_def)

lemma file_fields:
  "fname firstFile = ''first.pdf''" "ftype firstFile = ''Passport''"
  "fname secondFile = ''second.pdf''" "ftype secondFile = ''Passport''"
  by (simp_all add: firstFile_def secondFile_def)

lemma podAfterFirstUpload_reads [simp]:
  "getSolidDataset_res (podAfterFirstUpload placement itemRead) tr (JStr s) = Inr passportListing"
  "getSolidDataset_res (podAfterFirstUpload placement itemRead) tr (JThing item) = itemRead"
  "saveFileInContainer_res (podAfterFirstUpload placement itemRead) tr u slug ct = placement"
  "createContainerAt_res (podAfterFirstUpload placement itemRead) tr u = Inr ()"
  "saveSolidDatasetAt_res (podAfterFirstUpload placement itemRead) tr u v w = Inr ()"
  "generateName (podAfterFirstUpload placement itemRead) tr = ''b7e1''"
  by (simp_all add: podAfterFirstUpload_def)

lemma freshPod_answers [simp]:
  "getSolidDataset_res (freshPod placement) tr u = Inr [containerItem]"
  "saveFileInContainer_res (freshPod placement) tr u slug ct = placement"
  "createContainerAt_res (freshPod placement) tr u = Inr ()"
  "saveSolidDatasetInContainer_res (freshPod placement) tr u d = Inr ()"
  "saveAclFor_res (freshPod placement) tr r a = Inr ()"
  "generateName (freshPod placement) tr = ''b7e1''"
  by (simp_all add: freshPod_def)

lemma alice_webId: "webId alice = ''https://alice.example/profile/card#me''"
  by (simp add: alice_def)

subsection \<open>Retrieval\<close>

text \<open>
  Claim C4. When the read of the container resolves, \<open>fetchDocuments\<close> returns the
  container URL. When the read is rejected, whatever the reason \<open>e\<close> (not found,
  unauthorized, no network, a raise inside the client), it throws the one error
  \<^verbatim>\<open>No data found or unauthorized\<close>: the reason does not reach the caller.
\<close>

theorem fetchDocuments_uniform_error:
  "(fetchUrl session fileType fetchType (Some otherPodUrl) = Some u \<and>
    getSolidDataset_res client tr (JStr u) = Inr ds \<longrightarrow>
      fetchDocuments client session fileType fetchType otherPodUrl tr =
        (Inr (Some u), tr @ [GetSolidDataset (JStr u)])) \<and>
   (fst (getSolidDataset client
           (toJs (fetchUrl session fileType fetchType (Some otherPodUrl))) tr) = Inl e \<longrightarrow>
      fst (fetchDocuments client session fileType fetchType otherPodUrl tr) =
        Inl (Error ''No data found or unauthorized''))"
  by (auto simp: fetchDocuments_def getSolidDataset_def Let_def split: prod.splits sum.splits)

theorem fetchDocuments_uniform_error_witness:
  "fetchDocuments (examplePod (\<lambda>u. Inr passportListing) (Inr ()) noAcl)
       alice ''Passport'' ''self-fetch'' [] [] =
     (Inr (Some passportUrl), [GetSolidDataset (JStr passportUrl)]) \<and>
   fst (fetchDocuments (examplePod (\<lambda>u. Inl (FetchError 401)) (Inr ()) noAcl)
       alice ''Passport'' ''self-fetch'' [] []) =
     Inl (Error ''No data found or unauthorized'')"
proof -
  have url: "fetchUrl alice ''Passport'' ''self-fetch'' (Some []) = Some passportUrl"
    by (rule fetchUrl_alice_passport)
  have ok: "fetchDocuments (examplePod (\<lambda>u. Inr passportListing) (Inr ()) noAcl)
       alice ''Passport'' ''self-fetch'' [] [] =
     (Inr (Some passportUrl), [GetSolidDataset (JStr passportUrl)])"
    using fetchDocuments_uniform_error
      [where session = alice and fileType = "''Passport''" and fetchType = "''self-fetch''"
         and otherPodUrl = "[]" and u = passportUrl and ds = passportListing and tr = "[]"
         and client = "examplePod (\<lambda>u. Inr passportListing) (Inr ()) noAcl"]
    by (simp add: url)
  have rejected: "fst (fetchDocuments (examplePod (\<lambda>u. Inl (FetchError 401)) (Inr ()) noAcl)
       alice ''Passport'' ''self-fetch'' [] []) = Inl (Error ''No data found or unauthorized'')"
    using fetchDocuments_uniform_error
      [where session = alice and fileType = "''Passport''" and fetchType = "''self-fetch''"
         and otherPodUrl = "[]" and e = "FetchError 401" and tr = "[]"
         and client = "examplePod (\<lambda>u. Inl (FetchError 401)) (Inr ()) noAcl"]
    by (simp add: url getSolidDataset_def)
  from ok rejected show ?thesis by simp
qed

text \<open>
  Claim C10. For a document type outside the three supported ones the locator gives
  null; the client raises on the null URL, so the read is rejected; and the caller gets
  the same error value as for a supported type whose container the pod refuses to serve,
  whatever the pod's reason: no error of its own marks the unknown type.
\<close>

theorem fetchDocuments_unknown_type:
  assumes "fileType \<notin> set supportedTypes"
  shows "fetchUrl session fileType fetchType (Some otherPodUrl) = None \<and>
         fst (getSolidDataset client
                (toJs (fetchUrl session fileType fetchType (Some otherPodUrl))) tr) =
           Inl TypeError \<and>
         fetchDocuments client session fileType fetchType otherPodUrl tr =
           (Inl (Error ''No data found or unauthorized''),
            tr @ [GetSolidDataset JNull, ConsoleLog ''No data found or unauthorized'']) \<and>
         (fetchUrl session knownType fetchType (Some otherPodUrl) = Some u \<and>
          getSolidDataset_res client tr (JStr u) = Inl e \<longrightarrow>
            fst (fetchDocuments client session knownType fetchType otherPodUrl tr) =
            fst (fetchDocuments client session fileType fetchType otherPodUrl tr))"
proof -
  have none: "fetchUrl session fileType fetchType (Some otherPodUrl) = None"
    using assms by (rule fetchUrl_unsupported)
  show ?thesis
    by (auto simp: none fetchDocuments_def getSolidDataset_def)
qed

theorem fetchDocuments_unknown_type_witness:
  "fetchUrl alice ''Birth Certificate'' ''self-fetch'' (Some []) = None \<and>
   fetchDocuments (examplePod (\<lambda>u. Inl (FetchError 404)) (Inr ()) noAcl)
       alice ''Birth Certificate'' ''self-fetch'' [] [] =
     (Inl (Error ''No data found or unauthorized''),
      [GetSolidDataset JNull, ConsoleLog ''No data found or unauthorized'']) \<and>
   fst (fetchDocuments (examplePod (\<lambda>u. Inl (FetchError 404)) (Inr ()) noAcl)
       alice ''Passport'' ''self-fetch'' [] []) =
   fst (fetchDocuments (examplePod (\<lambda>u. Inl (FetchError 404)) (Inr ()) noAcl)
       alice ''Birth Certificate'' ''self-fetch'' [] [])"
proof -
  have unsupported: "''Birth Certificate'' \<notin> set supportedTypes"
    by (simp add: supportedTypes_def)
  have url: "fetchUrl alice ''Passport'' ''self-fetch'' (Some []) = Some passportUrl"
    by (rule fetchUrl_alice_passport)
  show ?thesis
    using fetchDocuments_unknown_type
      [OF unsupported, where session = alice and fetchType = "''self-fetch''"
         and otherPodUrl = "[]" and tr = "[]" and knownType = "''Passport''"
         and u = passportUrl and e = "FetchError 404"
         and client = "examplePod (\<lambda>u. Inl (FetchError 404)) (Inr ()) noAcl"]
    by (simp add: url)
qed

subsection \<open>Upload\<close>

lemma aclSaves_append [simp]: "aclSaves (xs @ ys) = aclSaves xs @ aclSaves ys"
  by (induction xs rule: aclSaves.induct) simp_all

lemma placeFileInContainer_rejected:
  "saveFileInContainer_res client tr (JStr u) (fname f) (ftype f) = Inl e \<Longrightarrow>
   placeFileInContainer client session f (JStr u) tr =
     (Inr None, tr @ [SaveFileInContainer (JStr u) (fname f) (ftype f), ConsoleLogError e])"
  by (simp add: placeFileInContainer_def saveFileInContainer_def)

lemma placeFileInContainer_eq:
  "placeFileInContainer client session f u tr =
     (Inr None,
      tr @ SaveFileInContainer u (fname f) (ftype f) #
        (case fst (saveFileInContainer client u (fname f) (ftype f) tr) of
           Inl e \<Rightarrow> [ConsoleLogError e] | Inr v \<Rightarrow> []))"
  by (simp add: placeFileInContainer_def saveFileInContainer_def split: sum.splits)

lemma placeFileInContainer_snd:
  "snd (placeFileInContainer client session f u tr) =
      tr @ SaveFileInContainer u (fname f) (ftype f) #
        (case fst (saveFileInContainer client u (fname f) (ftype f) tr) of
           Inl e \<Rightarrow> [ConsoleLogError e] | Inr v \<Rightarrow> [])"
  by (simp add: placeFileInContainer_eq)

lemma setupAcl_createAcl:
  "setupAcl (createAcl r) agent a = \<lparr>resourceAccess = [(agent, a)], defaultAccess = [(agent, a)]\<rparr>"
  by (simp add: setupAcl_def createAcl_def setAgentResourceAccess_def setAgentDefaultAccess_def)


lemma createDocAclForUser_eq:
  "createDocAclForUser client session (Some u) tr =
     (case getSolidDataset_res client tr (JStr u) of
        Inl e \<Rightarrow> (Inl e, tr @ [GetSolidDataset (JStr u)])
      | Inr r \<Rightarrow>
          (saveAclFor_res client (tr @ [GetSolidDataset (JStr u)]) r
             (setupAcl (createAcl r) (webId session) fullAccess),
           tr @ [GetSolidDataset (JStr u),
                 SaveAclFor r (setupAcl (createAcl r) (webId session) fullAccess)]))"
  by (simp add: createDocAclForUser_def getSolidDataset_def saveAclFor_def await_cases Let_def
      split: sum.splits)

lemma await_placeFileInContainer:
  "await (placeFileInContainer client session f u tr) k =
     k None (snd (placeFileInContainer client session f u tr))"
  by (simp add: placeFileInContainer_def await_def split: prod.splits sum.splits)

lemma uploadDocument_eq:
  assumes "fetchUrl session (ftype f) ''self-fetch'' None = Some u"
  shows "uploadDocument client session f tr =
    (case createContainerAt_res client tr (JStr u) of
       Inl e \<Rightarrow> (Inl e, tr @ [CreateContainerAt (JStr u)])
     | Inr _ \<Rightarrow>
        (let tr2 = snd (placeFileInContainer client session f (JStr u)
                          (tr @ [CreateContainerAt (JStr u)]));
             tr3 = tr2 @ [GetSolidDataset (JStr u)];
             toBeUpdated = buildThing (createThing client tr3 None) f
         in case getSolidDataset_res client tr2 (JStr u) of
              Inl e \<Rightarrow> (Inl e, tr3)
            | Inr ds \<Rightarrow>
               (case hasTTLFiles ds of
                  Some item \<Rightarrow>
                    (case getSolidDataset_res client tr3 (JThing item) of
                       Inl e \<Rightarrow> (Inl e, tr3 @ [GetSolidDataset (JThing item)])
                     | Inr myDataset \<Rightarrow>
                         saveSolidDatasetAt client (JThing item) (JStr u)
                           (JDataset (setThing myDataset toBeUpdated))
                           (tr3 @ [GetSolidDataset (JThing item)]))
                | None \<Rightarrow>
                    (case saveSolidDatasetInContainer_res client tr3 (JStr u) [toBeUpdated] of
                       Inl e \<Rightarrow> (Inl e, tr3 @ [SaveSolidDatasetInContainer (JStr u) [toBeUpdated]])
                     | Inr _ \<Rightarrow>
                         createDocAclForUser client session (Some u)
                           (tr3 @ [SaveSolidDatasetInContainer (JStr u) [toBeUpdated]])))))"
  by (simp add: uploadDocument_def assms await_placeFileInContainer createContainerAt_def
      getSolidDataset_def saveSolidDatasetInContainer_def createSolidDataset_def
      await_cases Let_def split: sum.splits option.splits)


lemma uploadDocument_null:
  assumes "fetchUrl session (ftype f) ''self-fetch'' None = None"
  shows "uploadDocument client session f tr = (Inl TypeError, tr @ [CreateContainerAt JNull])"
  by (simp add: uploadDocument_def assms createContainerAt_def)

lemma uploadDocument_new_events:
  "\<exists>new. snd (uploadDocument client session f tr) = tr @ new \<and>
     length (aclSaves new) \<le> 1 \<and>
     (\<forall>p \<in> set (aclSaves new).
        snd p = \<lparr>resourceAccess = [(webId session, fullAccess)],
                  defaultAccess = [(webId session, fullAccess)]\<rparr> \<and>
        (\<exists>c d. SaveSolidDatasetInContainer c d \<in> set new))"
proof (cases "fetchUrl session (ftype f) ''self-fetch'' None")
  case None
  then show ?thesis
    by (simp add: uploadDocument_null)
next
  case (Some u)
  show ?thesis
    by (simp add: uploadDocument_eq [OF Some] placeFileInContainer_snd createDocAclForUser_eq
        saveSolidDatasetAt_def setupAcl_createAcl Let_def
        split: sum.splits option.splits)
qed

lemma uploadDocument_merge_no_acl:
  assumes "fetchUrl session (ftype f) ''self-fetch'' None = Some u"
    and "createContainerAt_res client tr (JStr u) = Inr ()"
    and "getSolidDataset_res client
           (snd (placeFileInContainer client session f (JStr u) (tr @ [CreateContainerAt (JStr u)])))
           (JStr u) = Inr ds"
    and "hasTTLFiles ds = Some item"
  shows "aclSaves (drop (length tr) (snd (uploadDocument client session f tr))) = []"
  using assms(2-4)
  by (simp add: uploadDocument_eq [OF assms(1)] saveSolidDatasetAt_def Let_def
      placeFileInContainer_snd split: sum.splits)

lemma uploadDocument_create_acl:
  assumes "fetchUrl session (ftype f) ''self-fetch'' None = Some u"
    and "createContainerAt_res client tr (JStr u) = Inr ()"
    and "getSolidDataset_res client
           (snd (placeFileInContainer client session f (JStr u) (tr @ [CreateContainerAt (JStr u)])))
           (JStr u) = Inr ds"
    and "hasTTLFiles ds = None"
    and "saveSolidDatasetInContainer_res client
           (snd (placeFileInContainer client session f (JStr u) (tr @ [CreateContainerAt (JStr u)]))
              @ [GetSolidDataset (JStr u)]) (JStr u)
           [buildThing (createThing client
              (snd (placeFileInContainer client session f (JStr u) (tr @ [CreateContainerAt (JStr u)]))
                @ [GetSolidDataset (JStr u)]) None) f] = Inr ()"
    and "getSolidDataset_res client
           (snd (placeFileInContainer client session f (JStr u) (tr @ [CreateContainerAt (JStr u)]))
              @ [GetSolidDataset (JStr u),
                 SaveSolidDatasetInContainer (JStr u)
                  [buildThing (createThing client
                    (snd (placeFileInContainer client session f (JStr u) (tr @ [CreateContainerAt (JStr u)]))
                      @ [GetSolidDataset (JStr u)]) None) f]]) (JStr u) = Inr resource"
  shows "aclSaves (drop (length tr) (snd (uploadDocument client session f tr))) =
           [(resource, \<lparr>resourceAccess = [(webId session, fullAccess)],
                        defaultAccess = [(webId session, fullAccess)]\<rparr>)]"
  using assms(2-6)
  by (simp add: uploadDocument_eq [OF assms(1)] createDocAclForUser_eq setupAcl_createAcl Let_def
      placeFileInContainer_snd split: sum.splits)

lemma uploadDocument_acl_origin:
  assumes "(resource, acl) \<in> set (aclSaves (drop (length tr)
             (snd (uploadDocument client session f tr))))"
  shows "\<exists>u ds.
      fetchUrl session (ftype f) ''self-fetch'' None = Some u \<and>
      createContainerAt_res client tr (JStr u) = Inr () \<and>
      getSolidDataset_res client
        (snd (placeFileInContainer client session f (JStr u) (tr @ [CreateContainerAt (JStr u)])))
        (JStr u) = Inr ds \<and>
      hasTTLFiles ds = None \<and>
      saveSolidDatasetInContainer_res client
        (snd (placeFileInContainer client session f (JStr u) (tr @ [CreateContainerAt (JStr u)]))
           @ [GetSolidDataset (JStr u)]) (JStr u)
        [buildThing (createThing client
           (snd (placeFileInContainer client session f (JStr u) (tr @ [CreateContainerAt (JStr u)]))
             @ [GetSolidDataset (JStr u)]) None) f] = Inr () \<and>
      getSolidDataset_res client
        (snd (placeFileInContainer client session f (JStr u) (tr @ [CreateContainerAt (JStr u)]))
           @ [GetSolidDataset (JStr u),
              SaveSolidDatasetInContainer (JStr u)
               [buildThing (createThing client
                 (snd (placeFileInContainer client session f (JStr u) (tr @ [CreateContainerAt (JStr u)]))
                   @ [GetSolidDataset (JStr u)]) None) f]]) (JStr u) = Inr resource \<and>
      acl = \<lparr>resourceAccess = [(webId session, fullAccess)],
             defaultAccess = [(webId session, fullAccess)]\<rparr>"
proof (cases "fetchUrl session (ftype f) ''self-fetch'' None")
  case None
  with assms show ?thesis
    by (simp add: uploadDocument_null)
next
  case (Some u)
  with assms show ?thesis
    by (simp add: uploadDocument_eq [OF Some] placeFileInContainer_snd createDocAclForUser_eq
        saveSolidDatasetAt_def setupAcl_createAcl Let_def
        split: sum.splits option.splits)
qed

lemma uploadDocument_create_run:
  assumes "fetchUrl session (ftype f) ''self-fetch'' None = Some u"
    and "createContainerAt_res client tr (JStr u) = Inr ()"
    and "getSolidDataset_res client
           (snd (placeFileInContainer client session f (JStr u) (tr @ [CreateContainerAt (JStr u)])))
           (JStr u) = Inr ds"
    and "hasTTLFiles ds = None"
  shows "uploadDocument client session f tr =
    (case saveSolidDatasetInContainer_res client
           (snd (placeFileInContainer client session f (JStr u) (tr @ [CreateContainerAt (JStr u)]))
              @ [GetSolidDataset (JStr u)]) (JStr u)
           [buildThing (createThing client
              (snd (placeFileInContainer client session f (JStr u) (tr @ [CreateContainerAt (JStr u)]))
                @ [GetSolidDataset (JStr u)]) None) f] of
       Inl e \<Rightarrow>
         (Inl e,
          snd (placeFileInContainer client session f (JStr u) (tr @ [CreateContainerAt (JStr u)]))
            @ [GetSolidDataset (JStr u),
               SaveSolidDatasetInContainer (JStr u)
                [buildThing (createThing client
                  (snd (placeFileInContainer client session f (JStr u) (tr @ [CreateContainerAt (JStr u)]))
                    @ [GetSolidDataset (JStr u)]) None) f]])
     | Inr v \<Rightarrow>
         createDocAclForUser client session (Some u)
          (snd (placeFileInContainer client session f (JStr u) (tr @ [CreateContainerAt (JStr u)]))
            @ [GetSolidDataset (JStr u),
               SaveSolidDatasetInContainer (JStr u)
                [buildThing (createThing client
                  (snd (placeFileInContainer client session f (JStr u) (tr @ [CreateContainerAt (JStr u)]))
                    @ [GetSolidDataset (JStr u)]) None) f]]))"
  using assms(2-4)
  by (simp add: uploadDocument_eq [OF assms(1)] Let_def split: sum.splits)

lemma saveSolidDatasetAt_snd [simp]:
  "snd (saveSolidDatasetAt client u d options tr) = tr @ [SaveSolidDatasetAt u d options]"
  by (simp add: saveSolidDatasetAt_def)

lemma uploadDocument_reads_container:
  assumes "fetchUrl session (ftype f) ''self-fetch'' None = Some u"
    and "createContainerAt_res client tr (JStr u) = Inr ()"
  shows "prefix
     (snd (placeFileInContainer client session f (JStr u) (tr @ [CreateContainerAt (JStr u)]))
        @ [GetSolidDataset (JStr u)])
     (snd (uploadDocument client session f tr))"
proof -
  have acl: "prefix (t @ [g]) (snd (createDocAclForUser client session (Some u) (t @ [g, x])))"
    for t g x
    by (simp add: createDocAclForUser_eq split: sum.splits)
  show ?thesis
    using assms(2) acl
    by (simp add: uploadDocument_eq [OF assms(1)] Let_def split: sum.splits option.splits)
qed

lemma buildThing_secondFile:
  "buildThing (createThing (examplePod reads placement aclRead) tr None) secondFile = secondThing"
  by (simp add: buildThing_def createThing_def addStringNoLocale_def secondFile_def
      secondThing_def)

lemma buildThing_pod_secondFile:
  "buildThing (createThing (podAfterFirstUpload placement itemRead) tr None) secondFile =
     secondThing"
  by (simp add: podAfterFirstUpload_def buildThing_secondFile)

lemma createDocAclForUser_freshPod:
  "createDocAclForUser (freshPod placement) alice (Some passportUrl) tr =
     (Inr (), tr @ [GetSolidDataset (JStr passportUrl),
                    SaveAclFor [containerItem]
                      \<lparr>resourceAccess = [(webId alice, fullAccess)],
                       defaultAccess = [(webId alice, fullAccess)]\<rparr>])"
  by (simp add: createDocAclForUser_eq setupAcl_createAcl)

text \<open>
  Claim C1, at a second upload of the same document type. The listing of the container
  holds the dataset of the first upload, so the run takes the merge branch, creates no
  second dataset and builds the merged dataset (the first Thing kept, the second added).
  But it reads through the listing's item, an object, where the client expects a URL, and
  it calls \<^verbatim>\<open>saveSolidDatasetAt\<close> with the item as URL, the container URL as the
  dataset and the merged dataset as the options: the merged dataset is not what the client
  is asked to save, the client raises on the string it is given as the dataset, and the
  upload is rejected. When the pod rejects the read through the item, the run ends there
  and no save is even tried.
\<close>

theorem second_upload_merge_call:
  "uploadDocument (podAfterFirstUpload (Inr ()) (Inr [firstThing])) alice secondFile [] =
     (Inl TypeError,
      [CreateContainerAt (JStr passportUrl),
       SaveFileInContainer (JStr passportUrl) ''second.pdf'' ''Passport'',
       GetSolidDataset (JStr passportUrl),
       GetSolidDataset (JThing metaItem),
       SaveSolidDatasetAt (JThing metaItem) (JStr passportUrl)
         (JDataset [firstThing, secondThing])]) \<and>
   uploadDocument (podAfterFirstUpload (Inr ()) (Inl (FetchError 404))) alice secondFile [] =
     (Inl (FetchError 404),
      [CreateContainerAt (JStr passportUrl),
       SaveFileInContainer (JStr passportUrl) ''second.pdf'' ''Passport'',
       GetSolidDataset (JStr passportUrl),
       GetSolidDataset (JThing metaItem)])"
  by (simp add: uploadDocument_eq [OF fetchUrl_alice_files(2)] placeFileInContainer_eq
      saveFileInContainer_def saveSolidDatasetAt_def hasTTLFiles_examples Let_def
      buildThing_pod_secondFile file_fields firstThing_def secondThing_def)

text \<open>
  Claim C3 says that on every input on which the placement fails the run goes on to the
  metadata write. Two inputs on which it does not: the pod rejects the placement and then
  the read of the container, and the upload is rejected with the reason of the read, no
  write tried; the pod rejects the placement at a second upload, and the run ends in the
  save of the merge branch that the client refuses (claim C1).
\<close>

theorem upload_placement_failure_without_write:
  "uploadDocument (examplePod (\<lambda>u. Inl NetworkError) (Inl NetworkError) noAcl)
      alice firstFile [] =
     (Inl NetworkError,
      [CreateContainerAt (JStr passportUrl),
       SaveFileInContainer (JStr passportUrl) ''first.pdf'' ''Passport'',
       ConsoleLogError NetworkError,
       GetSolidDataset (JStr passportUrl)]) \<and>
   uploadDocument (podAfterFirstUpload (Inl NetworkError) (Inr [firstThing]))
      alice secondFile [] =
     (Inl TypeError,
      [CreateContainerAt (JStr passportUrl),
       SaveFileInContainer (JStr passportUrl) ''second.pdf'' ''Passport'',
       ConsoleLogError NetworkError,
       GetSolidDataset (JStr passportUrl),
       GetSolidDataset (JThing metaItem),
       SaveSolidDatasetAt (JThing metaItem) (JStr passportUrl)
         (JDataset [firstThing, secondThing])])"
  by (simp add: uploadDocument_eq [OF fetchUrl_alice_files(1)]
      uploadDocument_eq [OF fetchUrl_alice_files(2)] placeFileInContainer_eq
      saveFileInContainer_def saveSolidDatasetAt_def hasTTLFiles_examples Let_def
      buildThing_pod_secondFile file_fields firstThing_def secondThing_def)

text \<open>
  Claim C3, as amended. When the pod rejects the placement of the file with any reason
  \<open>e\<close>, \<open>placeFileInContainer\<close> logs \<open>e\<close> and resolves: nothing reaches
  \<open>uploadDocument\<close>, whose next request is the read of the container. If the pod rejects
  that read, the upload is rejected with the reason of the read and nothing is written.
  If the read resolves and the listing holds no dataset, the next request is the write of
  a new dataset holding the new Thing into the container; the upload is rejected with the
  pod's reason if the pod rejects the write, and goes on to the owner's ACL if not. The
  branch that finds a dataset in the listing is not part of the statement.
\<close>

theorem upload_survives_placement_failure:
  assumes url: "fetchUrl session (ftype f) ''self-fetch'' None = Some u"
    and created: "createContainerAt_res client tr (JStr u) = Inr ()"
    and placement: "saveFileInContainer_res client (tr @ [CreateContainerAt (JStr u)])
                      (JStr u) (fname f) (ftype f) = Inl e"
  shows "let tr1 = tr @ [CreateContainerAt (JStr u)];
             tr2 = tr1 @ [SaveFileInContainer (JStr u) (fname f) (ftype f), ConsoleLogError e];
             tr3 = tr2 @ [GetSolidDataset (JStr u)];
             toBeUpdated = buildThing (createThing client tr3 None) f;
             tr4 = tr3 @ [SaveSolidDatasetInContainer (JStr u) [toBeUpdated]];
             run = uploadDocument client session f tr
         in placeFileInContainer client session f (JStr u) tr1 = (Inr None, tr2) \<and>
            prefix tr3 (snd run) \<and>
            (getSolidDataset_res client tr2 (JStr u) = Inl e' \<longrightarrow> run = (Inl e', tr3)) \<and>
            (getSolidDataset_res client tr2 (JStr u) = Inr ds \<and> hasTTLFiles ds = None \<longrightarrow>
               prefix tr4 (snd run) \<and>
               run = (case saveSolidDatasetInContainer_res client tr3 (JStr u) [toBeUpdated] of
                        Inl e' \<Rightarrow> (Inl e', tr4)
                      | Inr v \<Rightarrow> createDocAclForUser client session (Some u) tr4))"
proof -
  have placed: "placeFileInContainer client session f (JStr u) (tr @ [CreateContainerAt (JStr u)]) =
      (Inr None, tr @ [CreateContainerAt (JStr u),
         SaveFileInContainer (JStr u) (fname f) (ftype f), ConsoleLogError e])"
    using placeFileInContainer_rejected [OF placement] by simp
  have reads: "prefix (tr @ [CreateContainerAt (JStr u),
         SaveFileInContainer (JStr u) (fname f) (ftype f), ConsoleLogError e,
         GetSolidDataset (JStr u)]) (snd (uploadDocument client session f tr))"
    using uploadDocument_reads_container [OF url created] by (simp add: placed)
  have rejected: "uploadDocument client session f tr =
      (Inl e', tr @ [CreateContainerAt (JStr u),
         SaveFileInContainer (JStr u) (fname f) (ftype f), ConsoleLogError e,
         GetSolidDataset (JStr u)])"
    if "getSolidDataset_res client (tr @ [CreateContainerAt (JStr u),
         SaveFileInContainer (JStr u) (fname f) (ftype f), ConsoleLogError e]) (JStr u) = Inl e'"
    using that by (simp add: uploadDocument_eq [OF url] created placed Let_def)
  have create: "uploadDocument client session f tr =
      (case saveSolidDatasetInContainer_res client
             (tr @ [CreateContainerAt (JStr u),
                SaveFileInContainer (JStr u) (fname f) (ftype f), ConsoleLogError e,
                GetSolidDataset (JStr u)]) (JStr u)
             [buildThing (createThing client
                (tr @ [CreateContainerAt (JStr u),
                   SaveFileInContainer (JStr u) (fname f) (ftype f), ConsoleLogError e,
                   GetSolidDataset (JStr u)]) None) f] of
         Inl e' \<Rightarrow> (Inl e', tr @ [CreateContainerAt (JStr u),
                SaveFileInContainer (JStr u) (fname f) (ftype f), ConsoleLogError e,
                GetSolidDataset (JStr u),
                SaveSolidDatasetInContainer (JStr u)
                  [buildThing (createThing client
                    (tr @ [CreateContainerAt (JStr u),
                       SaveFileInContainer (JStr u) (fname f) (ftype f), ConsoleLogError e,
                       GetSolidDataset (JStr u)]) None) f]])
       | Inr v \<Rightarrow> createDocAclForUser client session (Some u)
             (tr @ [CreateContainerAt (JStr u),
                SaveFileInContainer (JStr u) (fname f) (ftype f), ConsoleLogError e,
                GetSolidDataset (JStr u),
                SaveSolidDatasetInContainer (JStr u)
                  [buildThing (createThing client
                    (tr @ [CreateContainerAt (JStr u),
                       SaveFileInContainer (JStr u) (fname f) (ftype f), ConsoleLogError e,
                       GetSolidDataset (JStr u)]) None) f]]))"
    if "getSolidDataset_res client (tr @ [CreateContainerAt (JStr u),
         SaveFileInContainer (JStr u) (fname f) (ftype f), ConsoleLogError e]) (JStr u) = Inr ds"
      and "hasTTLFiles ds = None"
    using that
    by (simp add: uploadDocument_eq [OF url] created placed Let_def split: sum.splits)
  have writes: "prefix (tr @ [CreateContainerAt (JStr u),
                SaveFileInContainer (JStr u) (fname f) (ftype f), ConsoleLogError e,
                GetSolidDataset (JStr u),
                SaveSolidDatasetInContainer (JStr u)
                  [buildThing (createThing client
                    (tr @ [CreateContainerAt (JStr u),
                       SaveFileInContainer (JStr u) (fname f) (ftype f), ConsoleLogError e,
                       GetSolidDataset (JStr u)]) None) f]])
        (snd (uploadDocument client session f tr))"
    if "getSolidDataset_res client (tr @ [CreateContainerAt (JStr u),
         SaveFileInContainer (JStr u) (fname f) (ftype f), ConsoleLogError e]) (JStr u) = Inr ds"
      and "hasTTLFiles ds = None"
    by (simp add: create [OF that] createDocAclForUser_eq split: sum.splits)
  show ?thesis
    unfolding Let_def
    apply (intro conjI impI)
    subgoal using placed by simp
    subgoal using reads by simp
    subgoal using rejected by simp
    subgoal using writes by simp
    subgoal using create by (simp split: sum.splits)
    done
qed

theorem upload_survives_placement_failure_witness:
  "uploadDocument (freshPod (Inl (FetchError 403))) alice firstFile [] =
     (Inr (),
      [CreateContainerAt (JStr passportUrl),
       SaveFileInContainer (JStr passportUrl) ''first.pdf'' ''Passport'',
       ConsoleLogError (FetchError 403),
       GetSolidDataset (JStr passportUrl),
       SaveSolidDatasetInContainer (JStr passportUrl)
         [buildThing (createThing (freshPod (Inl (FetchError 403)))
            [CreateContainerAt (JStr passportUrl),
             SaveFileInContainer (JStr passportUrl) ''first.pdf'' ''Passport'',
             ConsoleLogError (FetchError 403),
             GetSolidDataset (JStr passportUrl)] None) firstFile],
       GetSolidDataset (JStr passportUrl),
       SaveAclFor [containerItem]
         \<lparr>resourceAccess = [(webId alice, fullAccess)],
          defaultAccess = [(webId alice, fullAccess)]\<rparr>]) \<and>
   uploadDocument (examplePod (\<lambda>u. Inl (FetchError 401)) (Inl (FetchError 403)) noAcl)
       alice firstFile [] =
     (Inl (FetchError 401),
      [CreateContainerAt (JStr passportUrl),
       SaveFileInContainer (JStr passportUrl) ''first.pdf'' ''Passport'',
       ConsoleLogError (FetchError 403),
       GetSolidDataset (JStr passportUrl)])"
proof -
  have create_branch:
    "uploadDocument (freshPod (Inl (FetchError 403))) alice firstFile [] =
     (Inr (),
      [CreateContainerAt (JStr passportUrl),
       SaveFileInContainer (JStr passportUrl) ''first.pdf'' ''Passport'',
       ConsoleLogError (FetchError 403),
       GetSolidDataset (JStr passportUrl),
       SaveSolidDatasetInContainer (JStr passportUrl)
         [buildThing (createThing (freshPod (Inl (FetchError 403)))
            [CreateContainerAt (JStr passportUrl),
             SaveFileInContainer (JStr passportUrl) ''first.pdf'' ''Passport'',
             ConsoleLogError (FetchError 403),
             GetSolidDataset (JStr passportUrl)] None) firstFile],
       GetSolidDataset (JStr passportUrl),
       SaveAclFor [containerItem]
         \<lparr>resourceAccess = [(webId alice, fullAccess)],
          defaultAccess = [(webId alice, fullAccess)]\<rparr>])"
    using upload_survives_placement_failure
      [where session = alice and f = firstFile and u = passportUrl and tr = "[]"
         and client = "freshPod (Inl (FetchError 403))" and e = "FetchError 403"
         and ds = "[containerItem]"]
    by (simp add: fetchUrl_alice_passport hasTTLFiles_examples file_fields Let_def
        createDocAclForUser_freshPod)
  have read_rejected:
    "uploadDocument (examplePod (\<lambda>u. Inl (FetchError 401)) (Inl (FetchError 403)) noAcl)
       alice firstFile [] =
     (Inl (FetchError 401),
      [CreateContainerAt (JStr passportUrl),
       SaveFileInContainer (JStr passportUrl) ''first.pdf'' ''Passport'',
       ConsoleLogError (FetchError 403),
       GetSolidDataset (JStr passportUrl)])"
    using upload_survives_placement_failure
      [where session = alice and f = firstFile and u = passportUrl and tr = "[]"
         and client = "examplePod (\<lambda>u. Inl (FetchError 401)) (Inl (FetchError 403)) noAcl"
         and e = "FetchError 403" and e' = "FetchError 401"]
    by (simp add: fetchUrl_alice_passport file_fields Let_def)
  from create_branch read_rejected show ?thesis by simp
qed

text \<open>
  Claim C2 says that every container gets the owner's ACL exactly once. Two histories in
  which it does not, on a pod that keeps what it is given. The pod stores the datasets as
  \<^verbatim>\<open>3f2a\<close> and \<^verbatim>\<open>9c1d\<close>, names that do not end in \<^verbatim>\<open>ttl\<close>: two uploads into the
  same container both resolve and both save the ACL. The first document uploaded is the
  file \<^verbatim>\<open>scan.ttl\<close>: it is taken for the dataset, both uploads take the merge branch and
  the container never gets an ACL.
\<close>

theorem acl_bootstrap_not_once_per_container:
  "fst (uploadDocument (recordingPod [''3f2a'', ''9c1d'']) alice firstFile []) = Inr () \<and>
   fst (uploadDocument (recordingPod [''3f2a'', ''9c1d'']) alice secondFile
     (snd (uploadDocument (recordingPod [''3f2a'', ''9c1d'']) alice firstFile []))) = Inr () \<and>
   length (aclSaves (snd (uploadDocument (recordingPod [''3f2a'', ''9c1d'']) alice secondFile
     (snd (uploadDocument (recordingPod [''3f2a'', ''9c1d'']) alice firstFile []))))) = 2 \<and>
   aclSaves (snd (uploadDocument (recordingPod [''3f2a.ttl'']) alice secondFile
     (snd (uploadDocument (recordingPod [''3f2a.ttl'']) alice turtleFile [])))) = []"
  by code_simp

text \<open>
  Claim C2, as amended: in every run of \<open>uploadDocument\<close>, for every pod. The run
  saves the owner's ACL at most once, and not at all for an unsupported type. When it
  saves one, the run has created the container, found no dataset in the listing, had its
  write of a new dataset accepted by the pod and read the container again, and the ACL
  save is its last request; the ACL saved maps the owner's WebID, and nothing else, to the
  access object with read, append, write and control all true, as resource access and as
  default access. A run that finds a dataset in the listing (the merge branch) saves no
  ACL; a run that finds none and whose requests the pod accepts saves it exactly once.
\<close>

theorem acl_bootstrap_only_when_creating:
  "let run = uploadDocument client session f tr;
       new = drop (length tr) (snd run);
       tr1 = tr @ [CreateContainerAt (JStr u)];
       tr2 = snd (placeFileInContainer client session f (JStr u) tr1);
       tr3 = tr2 @ [GetSolidDataset (JStr u)];
       toBeUpdated = buildThing (createThing client tr3 None) f;
       tr4 = tr3 @ [SaveSolidDatasetInContainer (JStr u) [toBeUpdated]];
       full = \<lparr>acc_read = Some True, acc_append = Some True,
                acc_write = Some True, acc_control = Some True\<rparr>;
       ownerAcl = \<lparr>resourceAccess = [(webId session, full)],
                   defaultAccess = [(webId session, full)]\<rparr>
   in snd run = tr @ new \<and>
      length (aclSaves new) \<le> 1 \<and>
      (fetchUrl session (ftype f) ''self-fetch'' None = None \<longrightarrow> aclSaves new = []) \<and>
      (\<forall>p \<in> set (aclSaves new).
          fetchUrl session (ftype f) ''self-fetch'' None = Some u \<longrightarrow>
            snd p = ownerAcl \<and>
            createContainerAt_res client tr (JStr u) = Inr () \<and>
            (\<exists>ds. getSolidDataset_res client tr2 (JStr u) = Inr ds \<and> hasTTLFiles ds = None) \<and>
            saveSolidDatasetInContainer_res client tr3 (JStr u) [toBeUpdated] = Inr () \<and>
            getSolidDataset_res client tr4 (JStr u) = Inr (fst p) \<and>
            snd run = tr4 @ [GetSolidDataset (JStr u), SaveAclFor (fst p) ownerAcl]) \<and>
      getAgentResourceAccess ownerAcl (webId session) = Some full \<and>
      getAgentDefaultAccess ownerAcl (webId session) = Some full \<and>
      (fetchUrl session (ftype f) ''self-fetch'' None = Some u \<and>
       createContainerAt_res client tr (JStr u) = Inr () \<and>
       getSolidDataset_res client tr2 (JStr u) = Inr ds \<and>
       hasTTLFiles ds = Some item \<longrightarrow> aclSaves new = []) \<and>
      (fetchUrl session (ftype f) ''self-fetch'' None = Some u \<and>
       createContainerAt_res client tr (JStr u) = Inr () \<and>
       getSolidDataset_res client tr2 (JStr u) = Inr ds \<and>
       hasTTLFiles ds = None \<and>
       saveSolidDatasetInContainer_res client tr3 (JStr u) [toBeUpdated] = Inr () \<and>
       getSolidDataset_res client tr4 (JStr u) = Inr resource \<longrightarrow>
         aclSaves new = [(resource, ownerAcl)])"
proof -
  obtain new where new: "snd (uploadDocument client session f tr) = tr @ new"
      "length (aclSaves new) \<le> 1"
    using uploadDocument_new_events by blast
  have dropped: "drop (length tr) (snd (uploadDocument client session f tr)) = new"
    by (simp add: new(1))
  have origin: "snd p = \<lparr>resourceAccess = [(webId session, fullAccess)],
                   defaultAccess = [(webId session, fullAccess)]\<rparr> \<and>
            createContainerAt_res client tr (JStr u) = Inr () \<and>
            (\<exists>ds. getSolidDataset_res client
               (snd (placeFileInContainer client session f (JStr u) (tr @ [CreateContainerAt (JStr u)])))
               (JStr u) = Inr ds \<and> hasTTLFiles ds = None) \<and>
            saveSolidDatasetInContainer_res client
              (snd (placeFileInContainer client session f (JStr u) (tr @ [CreateContainerAt (JStr u)]))
                 @ [GetSolidDataset (JStr u)]) (JStr u)
              [buildThing (createThing client
                 (snd (placeFileInContainer client session f (JStr u) (tr @ [CreateContainerAt (JStr u)]))
                   @ [GetSolidDataset (JStr u)]) None) f] = Inr () \<and>
            getSolidDataset_res client
              (snd (placeFileInContainer client session f (JStr u) (tr @ [CreateContainerAt (JStr u)]))
                 @ [GetSolidDataset (JStr u),
                    SaveSolidDatasetInContainer (JStr u)
                     [buildThing (createThing client
                       (snd (placeFileInContainer client session f (JStr u) (tr @ [CreateContainerAt (JStr u)]))
                         @ [GetSolidDataset (JStr u)]) None) f]]) (JStr u) = Inr (fst p) \<and>
            snd (uploadDocument client session f tr) =
              (snd (placeFileInContainer client session f (JStr u) (tr @ [CreateContainerAt (JStr u)]))
                 @ [GetSolidDataset (JStr u),
                    SaveSolidDatasetInContainer (JStr u)
                     [buildThing (createThing client
                       (snd (placeFileInContainer client session f (JStr u) (tr @ [CreateContainerAt (JStr u)]))
                         @ [GetSolidDataset (JStr u)]) None) f]])
                 @ [GetSolidDataset (JStr u),
                    SaveAclFor (fst p) \<lparr>resourceAccess = [(webId session, fullAccess)],
                       defaultAccess = [(webId session, fullAccess)]\<rparr>]"
    if p: "p \<in> set (aclSaves new)" and url: "fetchUrl session (ftype f) ''self-fetch'' None = Some u"
    for p
  proof -
    from p have "(fst p, snd p) \<in> set (aclSaves (drop (length tr)
             (snd (uploadDocument client session f tr))))"
      by (simp add: dropped)
    from uploadDocument_acl_origin [OF this] url
    obtain ds where facts:
      "createContainerAt_res client tr (JStr u) = Inr ()"
      "getSolidDataset_res client
        (snd (placeFileInContainer client session f (JStr u) (tr @ [CreateContainerAt (JStr u)])))
        (JStr u) = Inr ds"
      "hasTTLFiles ds = None"
      "saveSolidDatasetInContainer_res client
        (snd (placeFileInContainer client session f (JStr u) (tr @ [CreateContainerAt (JStr u)]))
           @ [GetSolidDataset (JStr u)]) (JStr u)
        [buildThing (createThing client
           (snd (placeFileInContainer client session f (JStr u) (tr @ [CreateContainerAt (JStr u)]))
             @ [GetSolidDataset (JStr u)]) None) f] = Inr ()"
      "getSolidDataset_res client
        (snd (placeFileInContainer client session f (JStr u) (tr @ [CreateContainerAt (JStr u)]))
           @ [GetSolidDataset (JStr u),
              SaveSolidDatasetInContainer (JStr u)
               [buildThing (createThing client
                 (snd (placeFileInContainer client session f (JStr u) (tr @ [CreateContainerAt (JStr u)]))
                   @ [GetSolidDataset (JStr u)]) None) f]]) (JStr u) = Inr (fst p)"
      "snd p = \<lparr>resourceAccess = [(webId session, fullAccess)],
             defaultAccess = [(webId session, fullAccess)]\<rparr>"
      by auto
    have "snd (uploadDocument client session f tr) =
              (snd (placeFileInContainer client session f (JStr u) (tr @ [CreateContainerAt (JStr u)]))
                 @ [GetSolidDataset (JStr u),
                    SaveSolidDatasetInContainer (JStr u)
                     [buildThing (createThing client
                       (snd (placeFileInContainer client session f (JStr u) (tr @ [CreateContainerAt (JStr u)]))
                         @ [GetSolidDataset (JStr u)]) None) f]])
                 @ [GetSolidDataset (JStr u),
                    SaveAclFor (fst p) \<lparr>resourceAccess = [(webId session, fullAccess)],
                       defaultAccess = [(webId session, fullAccess)]\<rparr>]"
      using facts(4,5)
      by (simp add: uploadDocument_create_run [OF url facts(1-3)] createDocAclForUser_eq
          setupAcl_createAcl)
    with facts show ?thesis by blast
  qed
  have none: "aclSaves new = []" if "fetchUrl session (ftype f) ''self-fetch'' None = None"
  proof -
    from that new(1) have "new = [CreateContainerAt JNull]"
      by (simp add: uploadDocument_null)
    then show ?thesis by simp
  qed
  show ?thesis
    unfolding Let_def
    apply (intro conjI impI ballI)
    subgoal by (simp add: new(1))
    subgoal using new(2) by (simp add: dropped)
    subgoal using none by (simp add: dropped)
    subgoal for p using origin [of p] by (simp add: dropped fullAccess_def)
    subgoal for p using origin [of p] by (simp add: dropped)
    subgoal for p using origin [of p] by (simp add: dropped)
    subgoal for p using origin [of p] by (simp add: dropped)
    subgoal for p using origin [of p] by (simp add: dropped)
    subgoal for p using origin [of p] by (simp add: dropped fullAccess_def)
    subgoal by (simp add: getAgentResourceAccess_def)
    subgoal by (simp add: getAgentDefaultAccess_def)
    subgoal using uploadDocument_merge_no_acl [of session f u client tr ds item] by simp
    subgoal using uploadDocument_create_acl [of session f u client tr ds resource]
      by (simp add: fullAccess_def)
    done
qed

theorem acl_bootstrap_only_when_creating_witness:
  "aclSaves (snd (uploadDocument (freshPod (Inr ())) alice firstFile [])) =
     [([containerItem],
       \<lparr>resourceAccess = [(''https://alice.example/profile/card#me'', fullAccess)],
        defaultAccess = [(''https://alice.example/profile/card#me'', fullAccess)]\<rparr>)] \<and>
   aclSaves (snd (uploadDocument (podAfterFirstUpload (Inr ()) (Inr [firstThing]))
      alice secondFile [])) = []"
proof -
  have create_branch:
    "aclSaves (snd (uploadDocument (freshPod (Inr ())) alice firstFile [])) =
     [([containerItem],
       \<lparr>resourceAccess = [(''https://alice.example/profile/card#me'', fullAccess)],
        defaultAccess = [(''https://alice.example/profile/card#me'', fullAccess)]\<rparr>)]"
    using acl_bootstrap_only_when_creating
      [where session = alice and f = firstFile and u = passportUrl and tr = "[]"
         and client = "freshPod (Inr ())" and ds = "[containerItem]"
         and resource = "[containerItem]", unfolded Let_def,
       THEN conjunct2, THEN conjunct2, THEN conjunct2, THEN conjunct2, THEN conjunct2,
       THEN conjunct2, THEN conjunct2]
    by (simp add: fetchUrl_alice_passport hasTTLFiles_examples file_fields
        fullAccess_def alice_webId)
  have merge_branch:
    "aclSaves (snd (uploadDocument (podAfterFirstUpload (Inr ()) (Inr [firstThing]))
       alice secondFile [])) = []"
    using acl_bootstrap_only_when_creating
      [where session = alice and f = secondFile and u = passportUrl and tr = "[]"
         and client = "podAfterFirstUpload (Inr ()) (Inr [firstThing])" and ds = passportListing
         and item = metaItem, unfolded Let_def,
       THEN conjunct2, THEN conjunct2, THEN conjunct2, THEN conjunct2, THEN conjunct2,
       THEN conjunct2, THEN conjunct1]
    by (simp add: fetchUrl_alice_passport hasTTLFiles_examples file_fields)
  from create_branch merge_branch show ?thesis by simp
qed

subsection \<open>Permissions\<close>

lemma setupAcl_agent:
  "getAgentResourceAccess (setupAcl acl agent a) agent = Some a"
  "getAgentDefaultAccess (setupAcl acl agent a) agent = Some a"
  by (simp_all add: setupAcl_def setAgentResourceAccess_def setAgentDefaultAccess_def
      getAgentResourceAccess_def getAgentDefaultAccess_def update_conv')

lemma setupAcl_other:
  assumes "other \<noteq> agent"
  shows "getAgentResourceAccess (setupAcl acl agent a) other = getAgentResourceAccess acl other"
    and "getAgentDefaultAccess (setupAcl acl agent a) other = getAgentDefaultAccess acl other"
  using assms
  by (simp_all add: setupAcl_def setAgentResourceAccess_def setAgentDefaultAccess_def
      getAgentResourceAccess_def getAgentDefaultAccess_def update_conv')

lemma setDocAclPermission_eq:
  "setDocAclPermission client session fileType accessType otherPodUrl tr =
    (case fetchUrl session fileType ''self-fetch'' None of
       None \<Rightarrow> (Inl TypeError, tr @ [GetSolidDatasetWithAcl JNull])
     | Some u \<Rightarrow>
        (case getSolidDatasetWithAcl_res client tr (JStr u) of
           Inl e \<Rightarrow> (Inl e, tr @ [GetSolidDatasetWithAcl (JStr u)])
         | Inr r \<Rightarrow>
            (case internal_acl r of
               None \<Rightarrow> (Inl TypeError, tr @ [GetSolidDatasetWithAcl (JStr u)])
             | Some acl \<Rightarrow>
                (saveAclFor_res client (tr @ [GetSolidDatasetWithAcl (JStr u)]) (dataset r)
                   (setupAcl acl (granteeWebId otherPodUrl) (readOnly (accessType = ''Give''))),
                 tr @ [GetSolidDatasetWithAcl (JStr u),
                       SaveAclFor (dataset r)
                         (setupAcl acl (granteeWebId otherPodUrl)
                            (readOnly (accessType = ''Give'')))]))))"
  by (simp add: setDocAclPermission_def getSolidDatasetWithAcl_def saveAclFor_def
      getResourceAcl_def await_cases Let_def split: option.splits sum.splits)

text \<open>
  Claim C7. When the container with its ACL is read and has a resource ACL,
  \<open>setDocAclPermission\<close> saves that ACL updated by \<open>setupAcl\<close> for the agent
  \<^verbatim>\<open>https://<otherPodUrl>/profile/card#me\<close> with the access object whose only property is
  \<open>read\<close>: true when \<open>accessType\<close> is \<^verbatim>\<open>Give\<close>, false otherwise. In the saved ACL
  that object is the agent's resource access and its default access.
\<close>

theorem setDocAclPermission_sets_read:
  assumes "fetchUrl session fileType ''self-fetch'' None = Some u"
    and "getSolidDatasetWithAcl_res client tr (JStr u) = Inr r"
    and "internal_acl r = Some acl"
  shows "let agent = ''https://'' @ otherPodUrl @ ''/profile/card#me'';
             accessObject = \<lparr>acc_read = Some (accessType = ''Give''), acc_append = None,
                             acc_write = None, acc_control = None\<rparr>;
             updatedAcl = setupAcl acl agent accessObject;
             tr1 = tr @ [GetSolidDatasetWithAcl (JStr u)]
         in setDocAclPermission client session fileType accessType otherPodUrl tr =
              (saveAclFor_res client tr1 (dataset r) updatedAcl,
               tr1 @ [SaveAclFor (dataset r) updatedAcl]) \<and>
            getAgentResourceAccess updatedAcl agent = Some accessObject \<and>
            getAgentDefaultAccess updatedAcl agent = Some accessObject"
  by (simp add: setDocAclPermission_eq assms setupAcl_agent granteeWebId_def readOnly_def Let_def)

lemma sharingPod_answers [simp]:
  "getSolidDatasetWithAcl_res sharingPod tr u = Inr passportWithAcl"
  "saveAclFor_res sharingPod tr r a = Inr ()"
  by (simp_all add: sharingPod_def)

lemma passportWithAcl_fields [simp]:
  "internal_acl passportWithAcl = Some passportAcl"
  "dataset passportWithAcl = passportListing"
  by (simp_all add: passportWithAcl_def)

lemma setupAcl_passportAcl:
  "setupAcl passportAcl ''https://bob.example/profile/card#me'' (readOnly b) = sharedAcl b"
  by (simp add: setupAcl_def setAgentResourceAccess_def setAgentDefaultAccess_def
      passportAcl_def sharedAcl_def alice_webId carol_def bob_def)

theorem setDocAclPermission_sets_read_witness:
  "setDocAclPermission sharingPod alice ''Passport'' ''Give'' ''bob.example'' [] =
     (Inr (), [GetSolidDatasetWithAcl (JStr passportUrl),
               SaveAclFor passportListing (sharedAcl True)]) \<and>
   getAgentResourceAccess (sharedAcl True) bob = Some (readOnly True) \<and>
   getAgentDefaultAccess (sharedAcl True) bob = Some (readOnly True) \<and>
   setDocAclPermission sharingPod alice ''Passport'' ''Revoke'' ''bob.example'' [] =
     (Inr (), [GetSolidDatasetWithAcl (JStr passportUrl),
               SaveAclFor passportListing (sharedAcl False)]) \<and>
   getAgentResourceAccess (sharedAcl False) bob = Some (readOnly False) \<and>
   getAgentDefaultAccess (sharedAcl False) bob = Some (readOnly False)"
proof -
  have url: "fetchUrl alice ''Passport'' ''self-fetch'' None = Some passportUrl"
    by (rule fetchUrl_alice_passport)
  have read: "getSolidDatasetWithAcl_res sharingPod [] (JStr passportUrl) = Inr passportWithAcl"
    by simp
  have acl: "internal_acl passportWithAcl = Some passportAcl"
    by simp
  have give: "''Give'' = ''Give''" and revoke: "''Revoke'' \<noteq> ''Give''"
    by simp_all
  show ?thesis
    using setDocAclPermission_sets_read [OF url read acl, where accessType = "''Give''"
        and otherPodUrl = "''bob.example''"]
      setDocAclPermission_sets_read [OF url read acl, where accessType = "''Revoke''"
        and otherPodUrl = "''bob.example''"]
    by (simp add: Let_def bob_def readOnly_def setupAcl_passportAcl [unfolded readOnly_def])
qed

text \<open>
  Claim C8. Whatever ACL a call of \<open>setDocAclPermission\<close> saves, it is the ACL read
  in that call changed for the targeted agent alone: every other agent has the resource
  access and the default access it had. So has the owner, whenever the targeted agent is
  external, that is, not the owner's own WebID.
\<close>

theorem setDocAclPermission_frame:
  assumes "(resource, updatedAcl) \<in> set (aclSaves (drop (length tr)
             (snd (setDocAclPermission client session fileType accessType otherPodUrl tr))))"
  shows "\<exists>u r acl.
           fetchUrl session fileType ''self-fetch'' None = Some u \<and>
           getSolidDatasetWithAcl_res client tr (JStr u) = Inr r \<and>
           internal_acl r = Some acl \<and> resource = dataset r \<and>
           (\<forall>agent. agent \<noteq> ''https://'' @ otherPodUrl @ ''/profile/card#me'' \<longrightarrow>
              getAgentResourceAccess updatedAcl agent = getAgentResourceAccess acl agent \<and>
              getAgentDefaultAccess updatedAcl agent = getAgentDefaultAccess acl agent) \<and>
           (webId session \<noteq> ''https://'' @ otherPodUrl @ ''/profile/card#me'' \<longrightarrow>
              getAgentResourceAccess updatedAcl (webId session) =
                getAgentResourceAccess acl (webId session) \<and>
              getAgentDefaultAccess updatedAcl (webId session) =
                getAgentDefaultAccess acl (webId session))"
  using assms
  by (auto simp: setDocAclPermission_eq setupAcl_other granteeWebId_def
      split: option.splits sum.splits)

theorem setDocAclPermission_frame_witness:
  "(passportListing, sharedAcl True) \<in> set (aclSaves (drop (length ([] :: trace))
      (snd (setDocAclPermission sharingPod alice ''Passport'' ''Give'' ''bob.example'' [])))) \<and>
   getAgentResourceAccess (sharedAcl True) (webId alice) = Some fullAccess \<and>
   getAgentDefaultAccess (sharedAcl True) (webId alice) = Some fullAccess \<and>
   getAgentResourceAccess (sharedAcl True) carol = Some (readOnly True) \<and>
   getAgentDefaultAccess (sharedAcl True) carol = Some (readOnly True)"
proof -
  have saved: "(passportListing, sharedAcl True) \<in> set (aclSaves (drop (length ([] :: trace))
      (snd (setDocAclPermission sharingPod alice ''Passport'' ''Give'' ''bob.example'' []))))"
    by (simp add: setDocAclPermission_eq fetchUrl_alice_passport granteeWebId_def
        setupAcl_passportAcl)
  from setDocAclPermission_frame [OF saved]
  obtain u r acl where
    read: "getSolidDatasetWithAcl_res sharingPod [] (JStr u) = Inr r"
    and acl: "internal_acl r = Some acl"
    and others: "\<forall>agent. agent \<noteq> ''https://'' @ ''bob.example'' @ ''/profile/card#me'' \<longrightarrow>
              getAgentResourceAccess (sharedAcl True) agent = getAgentResourceAccess acl agent \<and>
              getAgentDefaultAccess (sharedAcl True) agent = getAgentDefaultAccess acl agent"
    by blast
  from read acl have acl_eq: "acl = passportAcl"
    by simp
  have alice_other: "webId alice \<noteq> ''https://'' @ ''bob.example'' @ ''/profile/card#me''"
    and carol_other: "carol \<noteq> ''https://'' @ ''bob.example'' @ ''/profile/card#me''"
    by (simp_all add: alice_webId carol_def)
  have before:
    "getAgentResourceAccess passportAcl (webId alice) = Some fullAccess"
    "getAgentDefaultAccess passportAcl (webId alice) = Some fullAccess"
    "getAgentResourceAccess passportAcl carol = Some (readOnly True)"
    "getAgentDefaultAccess passportAcl carol = Some (readOnly True)"
    by (simp_all add: getAgentResourceAccess_def getAgentDefaultAccess_def passportAcl_def
        alice_webId carol_def)
  from others alice_other carol_other before saved show ?thesis
    unfolding acl_eq by metis
qed

subsection \<open>Deletion\<close>

text \<open>
  On the Passport container of the examples, whose file names are longer, the two phases
  do what they are meant to: a delete request for each of the two files, in the order of
  the listing, and the container's URL returned.
\<close>

lemma deleteDocumentFile_passportListing:
  "deleteDocumentFile (examplePod (\<lambda>u. Inr passportListing) (Inr ()) noAcl)
      alice ''Passport'' [] =
     (Inr (JStr passportUrl),
      [GetSolidDataset (JStr passportUrl),
       DeleteFile (JStr ''https://alice.example/Passport/first.pdf''),
       DeleteFile (JStr ''https://alice.example/Passport/3f2a.ttl'')])"
  by (simp add: deleteDocumentFile_def fetchUrl_alice_passport getSolidDataset_def hasFiles_def
      getThingAll_def slice_last3_def includes_slash_def deleteFile_unawaited_def
      passportListing_def containerItem_def firstFileItem_def metaItem_def passportUrl_def)

text \<open>
  Claim C5, at a container that holds a file stored as \<^verbatim>\<open>id\<close>. The test of \<open>hasFiles\<close>
  looks for a slash among the last three characters of the URL, not at its end, so the
  file counts as the directory: no delete request is made for it, and its URL is returned
  in place of the container's.
\<close>

theorem deleteDocumentFile_short_name:
  "deleteDocumentFile (examplePod (\<lambda>u. Inr [containerItem, shortNameItem]) (Inr ()) noAcl)
      alice ''Passport'' [] =
     (Inr (JStr ''https://alice.example/Passport/id''), [GetSolidDataset (JStr passportUrl)]) \<and>
   deletedFiles (snd (deleteDocumentFile
      (examplePod (\<lambda>u. Inr [containerItem, shortNameItem]) (Inr ()) noAcl)
      alice ''Passport'' [])) = []"
  by (simp add: deleteDocumentFile_def fetchUrl_alice_passport getSolidDataset_def hasFiles_def
      getThingAll_def slice_last3_def includes_slash_def containerItem_def shortNameItem_def)

end
